theory Spec2Isabelle
  imports Main "HOL-Library.Word"
begin

unbundle bit_operations_syntax

section \<open>udev-watch.c: the persistent registry of inotify watches on device nodes\<close>

text \<open>
  The unit \<^verbatim>\<open>src/udev/udev-watch.c\<close> keeps one symbolic link per inotify watch under
  \<^verbatim>\<open>/run/udev/watch\<close>, named by the decimal watch descriptor and pointing at the device
  identifier. The five functions of the unit are embedded below as state-passing
  functions over a record \<open>world\<close> that holds everything they read or write: the static
  variable \<open>inotify_fd\<close>, the C \<open>errno\<close>, the kernel's inotify state, the two directories
  and the device database. Functions return C integers as the source does (a negative
  errno value for a failure).
\<close>

subsection \<open>Constants of the system headers\<close>

definition ENOENT :: int where "ENOENT = 2"
definition EBADF :: int where "EBADF = 9"
definition EEXIST :: int where "EEXIST = 17"
definition EISDIR :: int where "EISDIR = 21"
definition EINVAL :: int where "EINVAL = 22"
definition ENAMETOOLONG :: int where "ENAMETOOLONG = 36"
definition ENOTEMPTY :: int where "ENOTEMPTY = 39"

text \<open>\<^verbatim>\<open>IN_CLOEXEC\<close> is \<^verbatim>\<open>O_CLOEXEC\<close> (octal 02000000), \<^verbatim>\<open>IN_NONBLOCK\<close> is
  \<^verbatim>\<open>O_NONBLOCK\<close> (octal 04000), \<^verbatim>\<open>IN_CLOSE_WRITE\<close> is 0x8.\<close>

definition IN_CLOEXEC :: "32 word" where "IN_CLOEXEC = 0x80000"
definition IN_NONBLOCK :: "32 word" where "IN_NONBLOCK = 0x800"
definition IN_CLOSE_WRITE :: "32 word" where "IN_CLOSE_WRITE = 0x8"

definition PATH_MAX :: nat where "PATH_MAX = 4096"

subsection \<open>Devices\<close>

text \<open>
  Modelled from the spec: the device object \<^verbatim>\<open>sd_device\<close> and its accessors live in
  \<^verbatim>\<open>device-private.h\<close> and \<^verbatim>\<open>sd-device\<close>, which are not part of the unit. The spec
  gives their interface: a node path and an identifier that are a string or an error,
  and a watch handle that is an integer or "not set". A device without a node or an
  identifier reports \<open>-ENOENT\<close>; a negative watch handle is "not set".
\<close>

record sd_device =
  devname :: "string option"
  id_filename :: "string option"
  watch_handle :: int

definition sd_device_get_devname :: "sd_device \<Rightarrow> int \<times> string" where
  "sd_device_get_devname dev =
     (case devname dev of None \<Rightarrow> (- ENOENT, []) | Some n \<Rightarrow> (0, n))"

definition device_get_id_filename :: "sd_device \<Rightarrow> int \<times> string" where
  "device_get_id_filename dev =
     (case id_filename dev of None \<Rightarrow> (- ENOENT, []) | Some i \<Rightarrow> (0, i))"

definition device_get_watch_handle :: "sd_device \<Rightarrow> int \<times> int" where
  "device_get_watch_handle dev =
     (if watch_handle dev < 0 then (- ENOENT, 0) else (0, watch_handle dev))"

definition device_set_watch_handle :: "sd_device \<Rightarrow> int \<Rightarrow> sd_device" where
  "device_set_watch_handle dev handle = dev\<lparr>watch_handle := handle\<rparr>"

subsection \<open>The world the unit runs in\<close>

text \<open>
  A directory entry is a symbolic link with its target, a regular file or a
  subdirectory. A directory is the list of its entries in the order \<^verbatim>\<open>readdir\<close> yields
  them; a path that does not exist is \<open>None\<close>.
\<close>

datatype node = Symlink string | Regular | Subdir

type_synonym directory = "(string \<times> node) list"

text \<open>The system calls the unit issues, recorded in the order they are made.\<close>

datatype syscall =
    Sys_inotify_init1 "32 word"
  | Sys_inotify_add_watch int string "32 word"
  | Sys_inotify_rm_watch int int
  | Sys_rename string string
  | Sys_opendir string
  | Sys_readdir
  | Sys_readlinkat string
  | Sys_unlinkat string
  | Sys_closedir
  | Sys_rmdir string
  | Sys_mkdir_parents string
  | Sys_unlink string
  | Sys_symlink string string
  | Sys_readlink string

text \<open>
  \<open>faults\<close> is the environment's plan of failures that the state does not explain
  (permissions, memory, I/O): a call that would succeed on the state takes the next
  entry of the plan and fails with that errno when it is not 0. A call that fails on the
  state itself (a missing entry, a directory that is not empty) fails with its own errno
  and leaves the plan alone.
\<close>

record world =
  inotify_fd :: int
  errno :: int
  faults :: "nat list"
  open_fds :: "(int \<times> 32 word) list"
  next_fd :: nat
  dev_nodes :: "(string \<times> nat) list"
  watches :: "(nat \<times> nat) list"
  next_wd :: nat
  watch_dir :: "directory option"
  old_dir :: "directory option"
  sysfs :: "string \<Rightarrow> sd_device option"
  debug_logging :: bool
  logged :: "string list"
  calls :: "syscall list"

definition called :: "syscall \<Rightarrow> world \<Rightarrow> world" where
  "called c w = w\<lparr>calls := calls w @ [c]\<rparr>"

definition failing :: "int \<Rightarrow> world \<Rightarrow> world" where
  "failing e w = w\<lparr>errno := e\<rparr>"

text \<open>\<open>next_fault w\<close> is the errno the plan injects into the next call that would
  succeed (0 for none), with the world after the plan has moved on.\<close>

definition next_fault :: "world \<Rightarrow> nat \<times> world" where
  "next_fault w =
     (case faults w of [] \<Rightarrow> (0, w) | f # fs \<Rightarrow> (f, w\<lparr>faults := fs\<rparr>))"

subsection \<open>Logging\<close>

text \<open>
  Modelled from the spec: the logging macros of \<^verbatim>\<open>log.h\<close> are not part of the unit.
  \<^verbatim>\<open>log_error_errno(error, ...)\<close> records the message and returns the negated
  absolute value of \<open>error\<close>; it keeps \<open>errno\<close>. Debug messages are recorded only when
  debug logging is on.
\<close>

definition log_error :: "string \<Rightarrow> world \<Rightarrow> world" where
  "log_error msg w = w\<lparr>logged := logged w @ [msg]\<rparr>"

definition log_error_errno :: "int \<Rightarrow> string \<Rightarrow> world \<Rightarrow> int \<times> world" where
  "log_error_errno e msg w = (- \<bar>e\<bar>, log_error msg w)"

definition log_debug :: "string \<Rightarrow> world \<Rightarrow> world" where
  "log_debug msg w = (if debug_logging w then w\<lparr>logged := logged w @ [msg]\<rparr> else w)"

subsection \<open>Path encoding\<close>

text \<open>\<^verbatim>\<open>xsprintf(filename, "/run/udev/watch/%d", wd)\<close>: the decimal form of an \<^verbatim>\<open>int\<close>.\<close>

definition digit_char :: "nat \<Rightarrow> char" where
  "digit_char n = ''0123456789'' ! (n mod 10)"

fun digits10 :: "nat \<Rightarrow> string" where
  "digits10 n = (if n < 10 then [digit_char n] else digits10 (n div 10) @ [digit_char (n mod 10)])"

declare digits10.simps [simp del]

definition fmt_d :: "int \<Rightarrow> string" where
  "fmt_d i = (if i < 0 then CHR ''-'' # digits10 (nat (- i)) else digits10 (nat i))"

definition watch_path :: "int \<Rightarrow> string" where
  "watch_path wd = ''/run/udev/watch/'' @ fmt_d wd"

fun strip_prefix :: "string \<Rightarrow> string \<Rightarrow> string option" where
  "strip_prefix [] s = Some s"
| "strip_prefix (c # cs) [] = None"
| "strip_prefix (c # cs) (d # ds) = (if c = d then strip_prefix cs ds else None)"

text \<open>The entry name of a path directly inside \<^verbatim>\<open>/run/udev/watch\<close>; the file system of
  the model has no other place for an entry.\<close>

definition watch_entry_name :: "string \<Rightarrow> string option" where
  "watch_entry_name path =
     (case strip_prefix ''/run/udev/watch/'' path of
        None \<Rightarrow> None
      | Some n \<Rightarrow> if n = [] \<or> CHR ''/'' \<in> set n then None else Some n)"

definition remove_entry :: "string \<Rightarrow> directory \<Rightarrow> directory" where
  "remove_entry name es = filter (\<lambda>e. fst e \<noteq> name) es"

subsection \<open>The kernel's inotify interface\<close>

text \<open>
  The kernel keeps the watches of an inotify instance by inode: \<open>dev_nodes\<close> gives the
  inode a path resolves to (several paths may lead to one inode), \<open>watches\<close> the watch
  descriptor of each watched inode. Adding a watch on an inode that is already watched
  returns the watch descriptor it has. The watch descriptors that the kernel hands out
  are never negative: the table holds them as naturals.
\<close>

definition inotify_init1 :: "32 word \<Rightarrow> world \<Rightarrow> int \<times> world" where
  "inotify_init1 flags w0 =
     (let w = called (Sys_inotify_init1 flags) w0 in
      if flags AND NOT (IN_CLOEXEC OR IN_NONBLOCK) \<noteq> 0 then (- 1, failing EINVAL w)
      else case next_fault w of (f, w1) \<Rightarrow>
        if f \<noteq> 0 then (- 1, failing (int f) w1)
        else (int (next_fd w1),
              w1\<lparr>open_fds := (int (next_fd w1), flags) # open_fds w1,
                  next_fd := Suc (next_fd w1)\<rparr>))"

text \<open>The close-on-exec flag of an open descriptor.\<close>

definition close_on_exec :: "world \<Rightarrow> int \<Rightarrow> bool" where
  "close_on_exec w fd =
     (case map_of (open_fds w) fd of None \<Rightarrow> False | Some flags \<Rightarrow> flags AND IN_CLOEXEC \<noteq> 0)"

definition watch_of_inode :: "(nat \<times> nat) list \<Rightarrow> nat \<Rightarrow> nat option" where
  "watch_of_inode ws ino = map_of (map (\<lambda>(wd, i). (i, wd)) ws) ino"

definition inotify_add_watch :: "int \<Rightarrow> string \<Rightarrow> 32 word \<Rightarrow> world \<Rightarrow> int \<times> world" where
  "inotify_add_watch fd path events w0 =
     (let w = called (Sys_inotify_add_watch fd path events) w0 in
      if map_of (open_fds w) fd = None then (- 1, failing EBADF w)
      else case map_of (dev_nodes w) path of
        None \<Rightarrow> (- 1, failing ENOENT w)
      | Some ino \<Rightarrow>
          (case next_fault w of (f, w1) \<Rightarrow>
             if f \<noteq> 0 then (- 1, failing (int f) w1)
             else (case watch_of_inode (watches w1) ino of
                     Some wd \<Rightarrow> (int wd, w1)
                   | None \<Rightarrow> (int (next_wd w1),
                              w1\<lparr>watches := watches w1 @ [(next_wd w1, ino)],
                                  next_wd := Suc (next_wd w1)\<rparr>))))"

definition inotify_rm_watch :: "int \<Rightarrow> int \<Rightarrow> world \<Rightarrow> int \<times> world" where
  "inotify_rm_watch fd wd w0 =
     (let w = called (Sys_inotify_rm_watch fd wd) w0 in
      if map_of (open_fds w) fd = None then (- 1, failing EBADF w)
      else if wd < 0 \<or> map_of (watches w) (nat wd) = None then (- 1, failing EINVAL w)
      else case next_fault w of (f, w1) \<Rightarrow>
        if f \<noteq> 0 then (- 1, failing (int f) w1)
        else (0, w1\<lparr>watches := filter (\<lambda>e. fst e \<noteq> nat wd) (watches w1)\<rparr>))"

subsection \<open>The file system calls\<close>

text \<open>\<^verbatim>\<open>rename("/run/udev/watch", "/run/udev/watch.old")\<close>: the only pair of paths the
  unit renames. The target may exist only as an empty directory.\<close>

definition rename :: "string \<Rightarrow> string \<Rightarrow> world \<Rightarrow> int \<times> world" where
  "rename old new w0 =
     (let w = called (Sys_rename old new) w0 in
      if old \<noteq> ''/run/udev/watch'' \<or> new \<noteq> ''/run/udev/watch.old'' then (- 1, failing ENOENT w)
      else case watch_dir w of
        None \<Rightarrow> (- 1, failing ENOENT w)
      | Some es \<Rightarrow>
          if old_dir w \<noteq> None \<and> old_dir w \<noteq> Some [] then (- 1, failing ENOTEMPTY w)
          else case next_fault w of (f, w1) \<Rightarrow>
            if f \<noteq> 0 then (- 1, failing (int f) w1)
            else (0, w1\<lparr>watch_dir := None, old_dir := Some es\<rparr>))"

text \<open>\<^verbatim>\<open>opendir("/run/udev/watch.old")\<close>: the stream of names \<^verbatim>\<open>readdir\<close> will yield, the
  pseudo-entries first.\<close>

definition opendir :: "string \<Rightarrow> world \<Rightarrow> string list option \<times> world" where
  "opendir path w0 =
     (let w = called (Sys_opendir path) w0 in
      if path \<noteq> ''/run/udev/watch.old'' then (None, failing ENOENT w)
      else case old_dir w of
        None \<Rightarrow> (None, failing ENOENT w)
      | Some es \<Rightarrow>
          (case next_fault w of (f, w1) \<Rightarrow>
             if f \<noteq> 0 then (None, failing (int f) w1)
             else (Some (''.'' # ''..'' # map fst es), w1)))"

text \<open>
  Modelled from the spec: \<^verbatim>\<open>FOREACH_DIRENT_ALL(ent, dir, break)\<close> of \<^verbatim>\<open>dirent-util.h\<close>
  is not part of the unit. It visits every entry, the pseudo-entries included; before
  each \<^verbatim>\<open>readdir\<close> it sets \<open>errno\<close> to 0, and a failing \<^verbatim>\<open>readdir\<close> ends the loop as
  the end of the directory does. \<open>readdir w\<close> is one such step where an entry is left:
  \<open>True\<close> when the entry is delivered.
\<close>

definition readdir :: "world \<Rightarrow> bool \<times> world" where
  "readdir w0 =
     (let w = called Sys_readdir (failing 0 w0) in
      case next_fault w of (f, w1) \<Rightarrow>
        if f \<noteq> 0 then (False, failing (int f) w1) else (True, w1))"

definition readdir_end :: "world \<Rightarrow> world" where
  "readdir_end w0 = called Sys_readdir (failing 0 w0)"

text \<open>\<^verbatim>\<open>readlinkat(dirfd(dir), name, buf, bufsiz)\<close> in the old directory: the number of
  bytes placed in the buffer (at most \<open>bufsiz\<close>) and the bytes, or -1.\<close>

definition readlinkat :: "string \<Rightarrow> nat \<Rightarrow> world \<Rightarrow> int \<times> string \<times> world" where
  "readlinkat name bufsiz w0 =
     (let w = called (Sys_readlinkat name) w0 in
      case old_dir w of
        None \<Rightarrow> (- 1, [], failing ENOENT w)
      | Some es \<Rightarrow>
          (case map_of es name of
             None \<Rightarrow> (- 1, [], failing ENOENT w)
           | Some Regular \<Rightarrow> (- 1, [], failing EINVAL w)
           | Some Subdir \<Rightarrow> (- 1, [], failing EINVAL w)
           | Some (Symlink t) \<Rightarrow>
               (case next_fault w of (f, w1) \<Rightarrow>
                  if f \<noteq> 0 then (- 1, [], failing (int f) w1)
                  else (int (min (length t) bufsiz), take bufsiz t, w1))))"

text \<open>\<^verbatim>\<open>unlinkat(dirfd(dir), name, 0)\<close> in the old directory.\<close>

definition unlinkat :: "string \<Rightarrow> world \<Rightarrow> int \<times> world" where
  "unlinkat name w0 =
     (let w = called (Sys_unlinkat name) w0 in
      case old_dir w of
        None \<Rightarrow> (- 1, failing ENOENT w)
      | Some es \<Rightarrow>
          (case map_of es name of
             None \<Rightarrow> (- 1, failing ENOENT w)
           | Some Subdir \<Rightarrow> (- 1, failing EISDIR w)
           | Some _ \<Rightarrow>
               (case next_fault w of (f, w1) \<Rightarrow>
                  if f \<noteq> 0 then (- 1, failing (int f) w1)
                  else (0, w1\<lparr>old_dir := Some (remove_entry name es)\<rparr>))))"

definition closedir :: "world \<Rightarrow> world" where
  "closedir w = called Sys_closedir w"

text \<open>\<^verbatim>\<open>rmdir("/run/udev/watch.old")\<close>.\<close>

definition rmdir :: "string \<Rightarrow> world \<Rightarrow> int \<times> world" where
  "rmdir path w0 =
     (let w = called (Sys_rmdir path) w0 in
      if path \<noteq> ''/run/udev/watch.old'' then (- 1, failing ENOENT w)
      else case old_dir w of
        None \<Rightarrow> (- 1, failing ENOENT w)
      | Some [] \<Rightarrow>
          (case next_fault w of (f, w1) \<Rightarrow>
             if f \<noteq> 0 then (- 1, failing (int f) w1)
             else (0, w1\<lparr>old_dir := None\<rparr>))
      | Some (e # es) \<Rightarrow> (- 1, failing ENOTEMPTY w))"

text \<open>
  Modelled from the spec: \<^verbatim>\<open>mkdir_parents(path, mode)\<close> of \<^verbatim>\<open>mkdir.h\<close> is not part of
  the unit. It creates the directories above \<open>path\<close> that are missing and returns 0, or
  a negative errno.
\<close>

definition mkdir_parents :: "string \<Rightarrow> world \<Rightarrow> int \<times> world" where
  "mkdir_parents path w0 =
     (let w = called (Sys_mkdir_parents path) w0 in
      case next_fault w of (f, w1) \<Rightarrow>
        if f \<noteq> 0 then (- int f, w1)
        else if watch_entry_name path \<noteq> None \<and> watch_dir w1 = None
          then (0, w1\<lparr>watch_dir := Some []\<rparr>)
          else (0, w1))"

definition unlink :: "string \<Rightarrow> world \<Rightarrow> int \<times> world" where
  "unlink path w0 =
     (let w = called (Sys_unlink path) w0 in
      case watch_entry_name path of
        None \<Rightarrow> (- 1, failing ENOENT w)
      | Some name \<Rightarrow>
          (case watch_dir w of
             None \<Rightarrow> (- 1, failing ENOENT w)
           | Some es \<Rightarrow>
               (case map_of es name of
                  None \<Rightarrow> (- 1, failing ENOENT w)
                | Some Subdir \<Rightarrow> (- 1, failing EISDIR w)
                | Some _ \<Rightarrow>
                    (case next_fault w of (f, w1) \<Rightarrow>
                       if f \<noteq> 0 then (- 1, failing (int f) w1)
                       else (0, w1\<lparr>watch_dir := Some (remove_entry name es)\<rparr>)))))"

text \<open>\<^verbatim>\<open>symlink(target, linkpath)\<close>: Linux refuses an empty target and one of
  \<open>PATH_MAX\<close> bytes or more.\<close>

definition symlink :: "string \<Rightarrow> string \<Rightarrow> world \<Rightarrow> int \<times> world" where
  "symlink target linkpath w0 =
     (let w = called (Sys_symlink target linkpath) w0 in
      case watch_entry_name linkpath of
        None \<Rightarrow> (- 1, failing ENOENT w)
      | Some name \<Rightarrow>
          (case watch_dir w of
             None \<Rightarrow> (- 1, failing ENOENT w)
           | Some es \<Rightarrow>
               if target = [] then (- 1, failing ENOENT w)
               else if PATH_MAX \<le> length target then (- 1, failing ENAMETOOLONG w)
               else if map_of es name \<noteq> None then (- 1, failing EEXIST w)
               else case next_fault w of (f, w1) \<Rightarrow>
                 if f \<noteq> 0 then (- 1, failing (int f) w1)
                 else (0, w1\<lparr>watch_dir := Some (es @ [(name, Symlink target)])\<rparr>)))"

definition readlink :: "string \<Rightarrow> nat \<Rightarrow> world \<Rightarrow> int \<times> string \<times> world" where
  "readlink path bufsiz w0 =
     (let w = called (Sys_readlink path) w0 in
      case watch_entry_name path of
        None \<Rightarrow> (- 1, [], failing ENOENT w)
      | Some name \<Rightarrow>
          (case watch_dir w of
             None \<Rightarrow> (- 1, [], failing ENOENT w)
           | Some es \<Rightarrow>
               (case map_of es name of
                  None \<Rightarrow> (- 1, [], failing ENOENT w)
                | Some Regular \<Rightarrow> (- 1, [], failing EINVAL w)
                | Some Subdir \<Rightarrow> (- 1, [], failing EINVAL w)
                | Some (Symlink t) \<Rightarrow>
                    (case next_fault w of (f, w1) \<Rightarrow>
                       if f \<noteq> 0 then (- 1, [], failing (int f) w1)
                       else (int (min (length t) bufsiz), take bufsiz t, w1)))))"

text \<open>
  Modelled from the spec: \<^verbatim>\<open>sd_device_new_from_device_id\<close> is the resolution service
  of \<^verbatim>\<open>sd-device\<close>, not part of the unit: from an identifier to a device reference or
  an error.
\<close>

definition ENODEV :: int where "ENODEV = 19"

definition sd_device_new_from_device_id :: "world \<Rightarrow> string \<Rightarrow> int \<times> sd_device option" where
  "sd_device_new_from_device_id w ident =
     (case sysfs w ident of None \<Rightarrow> (- ENODEV, None) | Some dev \<Rightarrow> (0, Some dev))"

subsection \<open>udev_watch_init\<close>

text \<open>
  \<^verbatim>\<open>inotify_fd = inotify_init1(IN_CLOEXEC); if (inotify_fd < 0) return
  log_error_errno(errno, ...); return inotify_fd;\<close>
\<close>

definition udev_watch_init :: "world \<Rightarrow> int \<times> world" where
  "udev_watch_init w =
     (case inotify_init1 IN_CLOEXEC w of (fd, w1) \<Rightarrow>
        let w2 = w1\<lparr>inotify_fd := fd\<rparr> in
        if inotify_fd w2 < 0
        then log_error_errno (errno w2) ''Failed to create inotify descriptor: %m'' w2
        else (inotify_fd w2, w2))"

subsection \<open>udev_watch_begin\<close>

text \<open>A function of the unit that takes a device returns its code, the device as the
  call leaves it, and the world.\<close>

definition returning :: "sd_device \<Rightarrow> int \<times> world \<Rightarrow> int \<times> sd_device \<times> world" where
  "returning dev rw = (fst rw, dev, snd rw)"

definition udev_watch_begin :: "world \<Rightarrow> sd_device \<Rightarrow> int \<times> sd_device \<times> world" where
  "udev_watch_begin w dev =
     (if inotify_fd w < 0
      then returning dev (log_error_errno EINVAL ''Invalid inotify descriptor.'' w)
      else case sd_device_get_devname dev of (r, devnode) \<Rightarrow>
        if r < 0 then returning dev (log_error_errno r ''Failed to get device name: %m'' w)
        else
          let w1 = log_debug (''Adding watch on '' @ devnode) w in
          case inotify_add_watch (inotify_fd w1) devnode IN_CLOSE_WRITE w1 of (wd, w2) \<Rightarrow>
            if wd < 0
            then returning dev
                   (log_error_errno (errno w2) (''Failed to add device to watch: '' @ devnode) w2)
            else
              let dev1 = device_set_watch_handle dev wd;
                  filename = watch_path wd in
              case mkdir_parents filename w2 of (r, w3) \<Rightarrow>
                if r < 0
                then returning dev1
                       (log_error_errno r (''Failed to create parent directory of '' @ filename) w3)
                else case unlink filename w3 of (u, w4) \<Rightarrow>
                  case device_get_id_filename dev1 of (r, ident) \<Rightarrow>
                    if r < 0
                    then returning dev1
                           (log_error_errno r ''Failed to get device id-filename: %m'' w4)
                    else case symlink ident filename w4 of (s, w5) \<Rightarrow>
                      if s < 0
                      then returning dev1
                             (log_error_errno (errno w5) (''Failed to create symlink '' @ filename) w5)
                      else (0, dev1, w5))"

subsection \<open>udev_watch_end\<close>

text \<open>The message of the second failure prints \<^verbatim>\<open>devnode\<close> before it is assigned;
  the model logs the message without it.\<close>

definition udev_watch_end :: "world \<Rightarrow> sd_device \<Rightarrow> int \<times> sd_device \<times> world" where
  "udev_watch_end w dev =
     (if inotify_fd w < 0
      then returning dev (log_error_errno EINVAL ''Invalid inotify descriptor.'' w)
      else case device_get_watch_handle dev of (r, wd) \<Rightarrow>
        if r = - ENOENT then (0, dev, w)
        else if r < 0
        then returning dev
               (log_error_errno r ''Failed to get watch handle for device, ignoring: %m'' w)
        else case sd_device_get_devname dev of (r, devnode) \<Rightarrow>
          if r < 0 then returning dev (log_error_errno r ''Failed to get device name: %m'' w)
          else
            let w1 = log_debug (''Removing watch on '' @ devnode) w in
            case inotify_rm_watch (inotify_fd w1) wd w1 of (k, w2) \<Rightarrow>
              case unlink (watch_path wd) w2 of (u, w3) \<Rightarrow>
                (0, device_set_watch_handle dev (- 1), w3))"

subsection \<open>udev_watch_lookup\<close>

text \<open>The second component is what the call stores through \<^verbatim>\<open>ret\<close>: \<open>None\<close> when it
  stores nothing.\<close>

definition udev_watch_lookup :: "world \<Rightarrow> int \<Rightarrow> int \<times> sd_device option \<times> world" where
  "udev_watch_lookup w wd =
     (if inotify_fd w < 0
      then case log_error_errno EINVAL ''Invalid inotify descriptor.'' w of
             (r, w') \<Rightarrow> (r, None, w')
      else if wd < 0
      then case log_error_errno EINVAL ''Invalid watch handle.'' w of
             (r, w') \<Rightarrow> (r, None, w')
      else
        let filename = watch_path wd in
        case readlink filename PATH_MAX w of (len, device, w1) \<Rightarrow>
          if len \<le> 0 then
            (if errno w1 \<noteq> ENOENT
             then case log_error_errno (errno w1) (''Failed to read link '' @ filename) w1 of
                    (r, w') \<Rightarrow> (r, None, w')
             else (0, None, w1))
          else if int PATH_MAX \<le> len
          then case log_error_errno ENAMETOOLONG
                      (''Path specified by link is truncated: '' @ filename) w1 of
                 (r, w') \<Rightarrow> (r, None, w')
          else case sd_device_new_from_device_id w1 device of (r, ret) \<Rightarrow>
            if r < 0
            then case log_error_errno r (''Failed to create sd_device object for '' @ device) w1 of
                   (r', w') \<Rightarrow> (r', None, w')
            else (0, ret, w1))"

subsection \<open>udev_watch_restore\<close>

text \<open>\<^verbatim>\<open>strnull(devnode)\<close>, where \<^verbatim>\<open>devnode\<close> stays \<^verbatim>\<open>NULL\<close> when the accessor fails.\<close>

definition strnull :: "int \<times> string \<Rightarrow> string" where
  "strnull rs = (if fst rs < 0 then ''(null)'' else snd rs)"

text \<open>\<^verbatim>\<open>ent->d_name[0] == '.'\<close>\<close>

definition dot_name :: "string \<Rightarrow> bool" where
  "dot_name name = (case name of [] \<Rightarrow> False | c # cs \<Rightarrow> c = CHR ''.'')"

text \<open>
  The part of the loop body between the test of the name and the label \<^verbatim>\<open>unlink:\<close>,
  which every path of it reaches.
\<close>

definition restore_attempt :: "world \<Rightarrow> string \<Rightarrow> world" where
  "restore_attempt w name =
     (case readlinkat name PATH_MAX w of (len, device, w1) \<Rightarrow>
        if len \<le> 0
        then snd (log_error_errno (errno w1)
                    (''Failed to read link /run/udev/watch.old/'' @ name @ '', ignoring: %m'') w1)
        else if int PATH_MAX \<le> len
        then log_error (''Path specified by link /run/udev/watch.old/'' @ name
                          @ '' is truncated, ignoring.'') w1
        else case sd_device_new_from_device_id w1 device of (r, ret) \<Rightarrow>
          if r < 0
          then snd (log_error_errno r
                      (''Failed to create sd_device object for '' @ device @ '', ignoring: %m'') w1)
          else (case ret of
                  None \<Rightarrow> w1
                | Some dev \<Rightarrow>
                    let w2 = (if debug_logging w1
                              then log_debug (''Restoring old watch on ''
                                                @ strnull (sd_device_get_devname dev)) w1
                              else w1)
                    in snd (snd (udev_watch_begin w2 dev))))"

text \<open>The loop body for the entry \<open>name\<close>: \<^verbatim>\<open>continue\<close> on a name that begins with a
  dot, otherwise the attempt and then \<^verbatim>\<open>(void) unlinkat(dirfd(dir), ent->d_name, 0)\<close>.\<close>

definition restore_entry :: "world \<Rightarrow> string \<Rightarrow> world" where
  "restore_entry w name =
     (if dot_name name then w
      else snd (unlinkat name (restore_attempt w name)))"

fun restore_loop :: "world \<Rightarrow> string list \<Rightarrow> world" where
  "restore_loop w [] = readdir_end w"
| "restore_loop w (name # names) =
     (case readdir w of
        (False, w1) \<Rightarrow> w1
      | (True, w1) \<Rightarrow> restore_loop (restore_entry w1 name) names)"

definition udev_watch_restore :: "world \<Rightarrow> int \<times> world" where
  "udev_watch_restore w =
     (if inotify_fd w < 0
      then log_error_errno EINVAL ''Invalid inotify descriptor.'' w
      else case rename ''/run/udev/watch'' ''/run/udev/watch.old'' w of (r, w1) \<Rightarrow>
        if r < 0 then
          (if errno w1 \<noteq> ENOENT
           then log_error_errno (errno w1)
                  ''Failed to move watches directory /run/udev/watch. Old watches will not be restored: %m''
                  w1
           else (0, w1))
        else (case opendir ''/run/udev/watch.old'' w1 of
            (None, w2) \<Rightarrow>
              log_error_errno (errno w2)
                ''Failed to open old watches directory /run/udev/watch.old. Old watches will not be restored: %m''
                w2
          | (Some names, w2) \<Rightarrow>
              let w3 = restore_loop w2 names;
                  w4 = closedir w3
              in case rmdir ''/run/udev/watch.old'' w4 of (r', w5) \<Rightarrow> (0, w5)))"

subsection \<open>Observations\<close>

text \<open>The registry entry of a watch descriptor, as a reader of the directory finds it.\<close>

definition registry_entry :: "world \<Rightarrow> int \<Rightarrow> node option" where
  "registry_entry w wd =
     (case watch_dir w of None \<Rightarrow> None | Some es \<Rightarrow> map_of es (fmt_d wd))"

text \<open>The registry holds a well-formed entry for the watch descriptor \<open>wd\<close> that points
  at the identifier \<open>ident\<close>.\<close>

definition registered :: "world \<Rightarrow> int \<Rightarrow> string \<Rightarrow> bool" where
  "registered w wd ident =
     (registry_entry w wd = Some (Symlink ident) \<and> ident \<noteq> [] \<and> length ident < PATH_MAX)"

text \<open>\<open>undisturbed wd w w'\<close>: the world \<open>w'\<close> is reached from \<open>w\<close> by calls of the unit
  that do not concern the watch descriptor \<open>wd\<close>: lookups, \<open>udev_watch_end\<close> on a device
  that holds another handle, \<open>udev_watch_begin\<close> that leaves its device with another
  handle. \<open>udev_watch_init\<close> and \<open>udev_watch_restore\<close> are not among them.\<close>

inductive undisturbed :: "int \<Rightarrow> world \<Rightarrow> world \<Rightarrow> bool" for wd :: int where
  undisturbed_refl: "undisturbed wd w w"
| undisturbed_lookup:
    "undisturbed wd w w1 \<Longrightarrow> udev_watch_lookup w1 h = (r, ret, w2) \<Longrightarrow> undisturbed wd w w2"
| undisturbed_end:
    "undisturbed wd w w1 \<Longrightarrow> watch_handle dev \<noteq> wd \<Longrightarrow>
     udev_watch_end w1 dev = (r, dev', w2) \<Longrightarrow> undisturbed wd w w2"
| undisturbed_begin:
    "undisturbed wd w w1 \<Longrightarrow> udev_watch_begin w1 dev = (r, dev', w2) \<Longrightarrow>
     watch_handle dev' \<noteq> wd \<Longrightarrow> undisturbed wd w w2"

text \<open>No failure is injected into the next call that would succeed.\<close>

definition next_call_unhindered :: "world \<Rightarrow> bool" where
  "next_call_unhindered w = (fst (next_fault w) = 0)"

subsection \<open>Example worlds\<close>

text \<open>A link target of \<open>PATH_MAX\<close> bytes.\<close>

definition long_target :: string where "long_target = replicate 4096 CHR ''a''"

definition disk_sda :: sd_device where
  "disk_sda = \<lparr>devname = Some ''/dev/sda'', id_filename = Some ''b8:0'', watch_handle = - 1\<rparr>"

definition netif :: sd_device where
  "netif = \<lparr>devname = None, id_filename = Some ''n2'', watch_handle = 5\<rparr>"

text \<open>A second device object whose node is another path to the disk's inode.\<close>

definition disk_alias :: sd_device where
  "disk_alias =
     \<lparr>devname = Some ''/dev/block/8:0'', id_filename = Some ''+alias:sda'', watch_handle = - 1\<rparr>"

definition example_sysfs :: "string \<Rightarrow> sd_device option" where
  "example_sysfs ident =
     (if ident = ''b8:0'' then Some disk_sda
      else if ident = ''+alias:sda'' then Some disk_alias
      else None)"

text \<open>A world before \<open>udev_watch_init\<close>, with no registry on disk.\<close>

definition fresh_world :: world where
  "fresh_world =
     \<lparr>inotify_fd = - 1, errno = 0, faults = [], open_fds = [], next_fd = 3,
      dev_nodes = [(''/dev/sda'', 11), (''/dev/block/8:0'', 11)], watches = [], next_wd = 1,
      watch_dir = None, old_dir = None, sysfs = example_sysfs,
      debug_logging = False, logged = [], calls = []\<rparr>"

text \<open>The world after a successful \<open>udev_watch_init\<close>.\<close>

definition ready_world :: world where
  "ready_world = fresh_world\<lparr>inotify_fd := 3, open_fds := [(3, IN_CLOEXEC)], next_fd := 4\<rparr>"

text \<open>Registries left by a previous run: one entry that resolves and one that does not;
  a registry that holds nothing but a file whose name begins with a dot; and one with a
  dot-named link beside an ordinary entry.\<close>

definition stale_registry :: world where
  "stale_registry =
     ready_world\<lparr>watch_dir := Some [(''1'', Symlink ''b8:0''), (''7'', Symlink ''zz'')]\<rparr>"

definition hidden_registry :: world where
  "hidden_registry = ready_world\<lparr>watch_dir := Some [(''.keep'', Regular)]\<rparr>"

definition dotted_registry :: world where
  "dotted_registry =
     ready_world\<lparr>watch_dir := Some [(''.x'', Symlink ''b8:0''), (''4'', Symlink ''b8:0'')]\<rparr>"

text \<open>The old directory as the relocation of \<open>stale_registry\<close> leaves it, and the world
  after \<open>udev_watch_begin\<close> on the disk.\<close>

definition relocated_registry :: world where
  "relocated_registry =
     ready_world\<lparr>old_dir := Some [(''1'', Symlink ''b8:0''), (''7'', Symlink ''zz'')]\<rparr>"


definition begun_world :: world where
  "begun_world =
     ready_world\<lparr>errno := 2, watches := [(1, 11)], next_wd := 2,
       watch_dir := Some [(''1'', Symlink ''b8:0'')],
       calls := [Sys_inotify_add_watch 3 ''/dev/sda'' IN_CLOSE_WRITE,
                 Sys_mkdir_parents ''/run/udev/watch/1'', Sys_unlink ''/run/udev/watch/1'',
                 Sys_symlink ''b8:0'' ''/run/udev/watch/1'']\<rparr>"

section \<open>Properties\<close>

subsection \<open>The path encoding\<close>

lemmas errno_defs = ENOENT_def EBADF_def EEXIST_def EISDIR_def EINVAL_def ENAMETOOLONG_def
  ENOTEMPTY_def ENODEV_def

lemma strip_prefix_append: "strip_prefix p (p @ s) = Some s"
  by (induction p) simp_all

lemma digit_char_in: "digit_char n \<in> set ''0123456789''"
proof -
  have "n mod 10 < length ''0123456789''" by simp
  then show ?thesis unfolding digit_char_def by (rule nth_mem)
qed

lemma digits10_chars: "set (digits10 n) \<subseteq> set ''0123456789''"
proof (induction n rule: digits10.induct)
  case (1 n)
  show ?case
  proof (cases "n < 10")
    case True
    then show ?thesis using digit_char_in [of n] by (subst digits10.simps) simp
  next
    case False
    then show ?thesis using 1 digit_char_in [of "n mod 10"]
      by (subst digits10.simps) simp
  qed
qed

lemma digits10_nonempty: "digits10 n \<noteq> []"
  by (subst digits10.simps) simp

lemma fmt_d_nonempty: "fmt_d i \<noteq> []"
  by (simp add: fmt_d_def digits10_nonempty)

lemma fmt_d_no_slash: "CHR ''/'' \<notin> set (fmt_d i)"
  using digits10_chars [of "nat i"] digits10_chars [of "nat (- i)"]
  by (auto simp: fmt_d_def)

lemma watch_entry_name_watch_path: "watch_entry_name (watch_path wd) = Some (fmt_d wd)"
  unfolding watch_entry_name_def watch_path_def
  by (simp only: strip_prefix_append option.case fmt_d_nonempty fmt_d_no_slash simp_thms if_False)

subsection \<open>What each call leaves alone\<close>

lemmas sys_defs = called_def failing_def next_fault_def Let_def

lemma inotify_add_watch_frame [simp]:
  "inotify_fd (snd (inotify_add_watch fd p m w)) = inotify_fd w"
  "sysfs (snd (inotify_add_watch fd p m w)) = sysfs w"
  "debug_logging (snd (inotify_add_watch fd p m w)) = debug_logging w"
  "open_fds (snd (inotify_add_watch fd p m w)) = open_fds w"
  "dev_nodes (snd (inotify_add_watch fd p m w)) = dev_nodes w"
  "logged (snd (inotify_add_watch fd p m w)) = logged w"
  "next_fd (snd (inotify_add_watch fd p m w)) = next_fd w"
  "watch_dir (snd (inotify_add_watch fd p m w)) = watch_dir w"
  "old_dir (snd (inotify_add_watch fd p m w)) = old_dir w"
  "calls (snd (inotify_add_watch fd p m w)) = calls w @ [Sys_inotify_add_watch fd p m]"
  "faults w = [] \<Longrightarrow> faults (snd (inotify_add_watch fd p m w)) = []"
  by (simp_all add: inotify_add_watch_def sys_defs split: option.splits node.splits list.splits)

lemma inotify_rm_watch_frame [simp]:
  "inotify_fd (snd (inotify_rm_watch fd wd w)) = inotify_fd w"
  "sysfs (snd (inotify_rm_watch fd wd w)) = sysfs w"
  "debug_logging (snd (inotify_rm_watch fd wd w)) = debug_logging w"
  "open_fds (snd (inotify_rm_watch fd wd w)) = open_fds w"
  "dev_nodes (snd (inotify_rm_watch fd wd w)) = dev_nodes w"
  "logged (snd (inotify_rm_watch fd wd w)) = logged w"
  "next_fd (snd (inotify_rm_watch fd wd w)) = next_fd w"
  "watch_dir (snd (inotify_rm_watch fd wd w)) = watch_dir w"
  "old_dir (snd (inotify_rm_watch fd wd w)) = old_dir w"
  "calls (snd (inotify_rm_watch fd wd w)) = calls w @ [Sys_inotify_rm_watch fd wd]"
  "faults w = [] \<Longrightarrow> faults (snd (inotify_rm_watch fd wd w)) = []"
  by (simp_all add: inotify_rm_watch_def sys_defs split: option.splits node.splits list.splits)

lemma rename_frame [simp]:
  "inotify_fd (snd (rename a b w)) = inotify_fd w"
  "sysfs (snd (rename a b w)) = sysfs w"
  "debug_logging (snd (rename a b w)) = debug_logging w"
  "open_fds (snd (rename a b w)) = open_fds w"
  "dev_nodes (snd (rename a b w)) = dev_nodes w"
  "logged (snd (rename a b w)) = logged w"
  "next_fd (snd (rename a b w)) = next_fd w"
  "watches (snd (rename a b w)) = watches w"
  "next_wd (snd (rename a b w)) = next_wd w"
  "calls (snd (rename a b w)) = calls w @ [Sys_rename a b]"
  "faults w = [] \<Longrightarrow> faults (snd (rename a b w)) = []"
  by (simp_all add: rename_def sys_defs split: option.splits node.splits list.splits)

lemma opendir_frame [simp]:
  "inotify_fd (snd (opendir p w)) = inotify_fd w"
  "sysfs (snd (opendir p w)) = sysfs w"
  "debug_logging (snd (opendir p w)) = debug_logging w"
  "open_fds (snd (opendir p w)) = open_fds w"
  "dev_nodes (snd (opendir p w)) = dev_nodes w"
  "logged (snd (opendir p w)) = logged w"
  "next_fd (snd (opendir p w)) = next_fd w"
  "watches (snd (opendir p w)) = watches w"
  "next_wd (snd (opendir p w)) = next_wd w"
  "watch_dir (snd (opendir p w)) = watch_dir w"
  "old_dir (snd (opendir p w)) = old_dir w"
  "calls (snd (opendir p w)) = calls w @ [Sys_opendir p]"
  "faults w = [] \<Longrightarrow> faults (snd (opendir p w)) = []"
  by (simp_all add: opendir_def sys_defs split: option.splits node.splits list.splits)

lemma readdir_frame [simp]:
  "inotify_fd (snd (readdir w)) = inotify_fd w"
  "sysfs (snd (readdir w)) = sysfs w"
  "debug_logging (snd (readdir w)) = debug_logging w"
  "open_fds (snd (readdir w)) = open_fds w"
  "dev_nodes (snd (readdir w)) = dev_nodes w"
  "logged (snd (readdir w)) = logged w"
  "next_fd (snd (readdir w)) = next_fd w"
  "watches (snd (readdir w)) = watches w"
  "next_wd (snd (readdir w)) = next_wd w"
  "watch_dir (snd (readdir w)) = watch_dir w"
  "old_dir (snd (readdir w)) = old_dir w"
  "calls (snd (readdir w)) = calls w @ [Sys_readdir]"
  "faults w = [] \<Longrightarrow> faults (snd (readdir w)) = []"
  by (simp_all add: readdir_def sys_defs split: option.splits node.splits list.splits)

lemma readlinkat_frame [simp]:
  "inotify_fd (snd (snd (readlinkat n b w))) = inotify_fd w"
  "sysfs (snd (snd (readlinkat n b w))) = sysfs w"
  "debug_logging (snd (snd (readlinkat n b w))) = debug_logging w"
  "open_fds (snd (snd (readlinkat n b w))) = open_fds w"
  "dev_nodes (snd (snd (readlinkat n b w))) = dev_nodes w"
  "logged (snd (snd (readlinkat n b w))) = logged w"
  "next_fd (snd (snd (readlinkat n b w))) = next_fd w"
  "watches (snd (snd (readlinkat n b w))) = watches w"
  "next_wd (snd (snd (readlinkat n b w))) = next_wd w"
  "watch_dir (snd (snd (readlinkat n b w))) = watch_dir w"
  "old_dir (snd (snd (readlinkat n b w))) = old_dir w"
  "calls (snd (snd (readlinkat n b w))) = calls w @ [Sys_readlinkat n]"
  "faults w = [] \<Longrightarrow> faults (snd (snd (readlinkat n b w))) = []"
  by (simp_all add: readlinkat_def sys_defs split: option.splits node.splits list.splits)

lemma unlinkat_frame [simp]:
  "inotify_fd (snd (unlinkat n w)) = inotify_fd w"
  "sysfs (snd (unlinkat n w)) = sysfs w"
  "debug_logging (snd (unlinkat n w)) = debug_logging w"
  "open_fds (snd (unlinkat n w)) = open_fds w"
  "dev_nodes (snd (unlinkat n w)) = dev_nodes w"
  "logged (snd (unlinkat n w)) = logged w"
  "next_fd (snd (unlinkat n w)) = next_fd w"
  "watches (snd (unlinkat n w)) = watches w"
  "next_wd (snd (unlinkat n w)) = next_wd w"
  "watch_dir (snd (unlinkat n w)) = watch_dir w"
  "calls (snd (unlinkat n w)) = calls w @ [Sys_unlinkat n]"
  "faults w = [] \<Longrightarrow> faults (snd (unlinkat n w)) = []"
  by (simp_all add: unlinkat_def sys_defs split: option.splits node.splits list.splits)

lemma rmdir_frame [simp]:
  "inotify_fd (snd (rmdir p w)) = inotify_fd w"
  "sysfs (snd (rmdir p w)) = sysfs w"
  "debug_logging (snd (rmdir p w)) = debug_logging w"
  "open_fds (snd (rmdir p w)) = open_fds w"
  "dev_nodes (snd (rmdir p w)) = dev_nodes w"
  "logged (snd (rmdir p w)) = logged w"
  "next_fd (snd (rmdir p w)) = next_fd w"
  "watches (snd (rmdir p w)) = watches w"
  "next_wd (snd (rmdir p w)) = next_wd w"
  "watch_dir (snd (rmdir p w)) = watch_dir w"
  "calls (snd (rmdir p w)) = calls w @ [Sys_rmdir p]"
  "faults w = [] \<Longrightarrow> faults (snd (rmdir p w)) = []"
  by (simp_all add: rmdir_def sys_defs split: option.splits node.splits list.splits)

lemma mkdir_parents_frame [simp]:
  "inotify_fd (snd (mkdir_parents p w)) = inotify_fd w"
  "sysfs (snd (mkdir_parents p w)) = sysfs w"
  "debug_logging (snd (mkdir_parents p w)) = debug_logging w"
  "open_fds (snd (mkdir_parents p w)) = open_fds w"
  "dev_nodes (snd (mkdir_parents p w)) = dev_nodes w"
  "logged (snd (mkdir_parents p w)) = logged w"
  "next_fd (snd (mkdir_parents p w)) = next_fd w"
  "watches (snd (mkdir_parents p w)) = watches w"
  "next_wd (snd (mkdir_parents p w)) = next_wd w"
  "old_dir (snd (mkdir_parents p w)) = old_dir w"
  "calls (snd (mkdir_parents p w)) = calls w @ [Sys_mkdir_parents p]"
  "faults w = [] \<Longrightarrow> faults (snd (mkdir_parents p w)) = []"
  by (simp_all add: mkdir_parents_def sys_defs split: option.splits node.splits list.splits)

lemma unlink_frame [simp]:
  "inotify_fd (snd (unlink p w)) = inotify_fd w"
  "sysfs (snd (unlink p w)) = sysfs w"
  "debug_logging (snd (unlink p w)) = debug_logging w"
  "open_fds (snd (unlink p w)) = open_fds w"
  "dev_nodes (snd (unlink p w)) = dev_nodes w"
  "logged (snd (unlink p w)) = logged w"
  "next_fd (snd (unlink p w)) = next_fd w"
  "watches (snd (unlink p w)) = watches w"
  "next_wd (snd (unlink p w)) = next_wd w"
  "old_dir (snd (unlink p w)) = old_dir w"
  "calls (snd (unlink p w)) = calls w @ [Sys_unlink p]"
  "faults w = [] \<Longrightarrow> faults (snd (unlink p w)) = []"
  by (simp_all add: unlink_def sys_defs split: option.splits node.splits list.splits)

lemma symlink_frame [simp]:
  "inotify_fd (snd (symlink t p w)) = inotify_fd w"
  "sysfs (snd (symlink t p w)) = sysfs w"
  "debug_logging (snd (symlink t p w)) = debug_logging w"
  "open_fds (snd (symlink t p w)) = open_fds w"
  "dev_nodes (snd (symlink t p w)) = dev_nodes w"
  "logged (snd (symlink t p w)) = logged w"
  "next_fd (snd (symlink t p w)) = next_fd w"
  "watches (snd (symlink t p w)) = watches w"
  "next_wd (snd (symlink t p w)) = next_wd w"
  "old_dir (snd (symlink t p w)) = old_dir w"
  "calls (snd (symlink t p w)) = calls w @ [Sys_symlink t p]"
  "faults w = [] \<Longrightarrow> faults (snd (symlink t p w)) = []"
  by (simp_all add: symlink_def sys_defs split: option.splits node.splits list.splits)

lemma readlink_frame [simp]:
  "inotify_fd (snd (snd (readlink p b w))) = inotify_fd w"
  "sysfs (snd (snd (readlink p b w))) = sysfs w"
  "debug_logging (snd (snd (readlink p b w))) = debug_logging w"
  "open_fds (snd (snd (readlink p b w))) = open_fds w"
  "dev_nodes (snd (snd (readlink p b w))) = dev_nodes w"
  "logged (snd (snd (readlink p b w))) = logged w"
  "next_fd (snd (snd (readlink p b w))) = next_fd w"
  "watches (snd (snd (readlink p b w))) = watches w"
  "next_wd (snd (snd (readlink p b w))) = next_wd w"
  "watch_dir (snd (snd (readlink p b w))) = watch_dir w"
  "old_dir (snd (snd (readlink p b w))) = old_dir w"
  "calls (snd (snd (readlink p b w))) = calls w @ [Sys_readlink p]"
  "faults w = [] \<Longrightarrow> faults (snd (snd (readlink p b w))) = []"
  by (simp_all add: readlink_def sys_defs split: option.splits node.splits list.splits)

lemma closedir_frame [simp]:
  "inotify_fd (closedir w) = inotify_fd w"
  "sysfs (closedir w) = sysfs w"
  "watch_dir (closedir w) = watch_dir w"
  "old_dir (closedir w) = old_dir w"
  "watches (closedir w) = watches w"
  "faults (closedir w) = faults w"
  "logged (closedir w) = logged w"
  "calls (closedir w) = calls w @ [Sys_closedir]"
  by (simp_all add: closedir_def called_def)

lemma readdir_end_frame [simp]:
  "inotify_fd (readdir_end w) = inotify_fd w"
  "sysfs (readdir_end w) = sysfs w"
  "watch_dir (readdir_end w) = watch_dir w"
  "old_dir (readdir_end w) = old_dir w"
  "watches (readdir_end w) = watches w"
  "faults (readdir_end w) = faults w"
  "logged (readdir_end w) = logged w"
  "calls (readdir_end w) = calls w @ [Sys_readdir]"
  by (simp_all add: readdir_end_def called_def failing_def)

lemma log_frame [simp]:
  "inotify_fd (log_error m w) = inotify_fd w"
  "sysfs (log_error m w) = sysfs w"
  "debug_logging (log_error m w) = debug_logging w"
  "open_fds (log_error m w) = open_fds w"
  "dev_nodes (log_error m w) = dev_nodes w"
  "watches (log_error m w) = watches w"
  "next_wd (log_error m w) = next_wd w"
  "watch_dir (log_error m w) = watch_dir w"
  "old_dir (log_error m w) = old_dir w"
  "faults (log_error m w) = faults w"
  "errno (log_error m w) = errno w"
  "calls (log_error m w) = calls w"
  "logged (log_error m w) = logged w @ [m]"
  "snd (log_error_errno e m w) = log_error m w"
  "fst (log_error_errno e m w) = - \<bar>e\<bar>"
  by (simp_all add: log_error_def log_error_errno_def)

lemma log_debug_frame [simp]:
  "inotify_fd (log_debug m w) = inotify_fd w"
  "sysfs (log_debug m w) = sysfs w"
  "debug_logging (log_debug m w) = debug_logging w"
  "open_fds (log_debug m w) = open_fds w"
  "dev_nodes (log_debug m w) = dev_nodes w"
  "watches (log_debug m w) = watches w"
  "next_wd (log_debug m w) = next_wd w"
  "watch_dir (log_debug m w) = watch_dir w"
  "old_dir (log_debug m w) = old_dir w"
  "faults (log_debug m w) = faults w"
  "errno (log_debug m w) = errno w"
  "calls (log_debug m w) = calls w"
  by (simp_all add: log_debug_def)

lemma udev_watch_begin_frame [simp]:
  "inotify_fd (snd (snd (udev_watch_begin w dev))) = inotify_fd w"
  "sysfs (snd (snd (udev_watch_begin w dev))) = sysfs w"
  "debug_logging (snd (snd (udev_watch_begin w dev))) = debug_logging w"
  "open_fds (snd (snd (udev_watch_begin w dev))) = open_fds w"
  "dev_nodes (snd (snd (udev_watch_begin w dev))) = dev_nodes w"
  "old_dir (snd (snd (udev_watch_begin w dev))) = old_dir w"
  "faults w = [] \<Longrightarrow> faults (snd (snd (udev_watch_begin w dev))) = []"
  by (simp_all add: udev_watch_begin_def returning_def split_beta Let_def)

lemma udev_watch_end_frame [simp]:
  "inotify_fd (snd (snd (udev_watch_end w dev))) = inotify_fd w"
  "sysfs (snd (snd (udev_watch_end w dev))) = sysfs w"
  "old_dir (snd (snd (udev_watch_end w dev))) = old_dir w"
  by (simp_all add: udev_watch_end_def returning_def split_beta Let_def)

subsection \<open>Operations before initialisation\<close>

text \<open>
  C6. While \<open>inotify_fd\<close> is negative, \<open>udev_watch_restore\<close>, \<open>udev_watch_begin\<close>,
  \<open>udev_watch_end\<close> and \<open>udev_watch_lookup\<close> each return \<open>-EINVAL\<close>; the device is
  returned as it was given, nothing is stored through \<^verbatim>\<open>ret\<close>, and the world differs
  from the one before only by the logged message: no system call is made, neither the
  kernel's watches nor the directories change.
\<close>

theorem uninitialised_channel_fails_fast:
  "inotify_fd w < 0 \<Longrightarrow>
     udev_watch_restore w =
       (- EINVAL, w\<lparr>logged := logged w @ [''Invalid inotify descriptor.'']\<rparr>) \<and>
     udev_watch_begin w dev =
       (- EINVAL, dev, w\<lparr>logged := logged w @ [''Invalid inotify descriptor.'']\<rparr>) \<and>
     udev_watch_end w dev =
       (- EINVAL, dev, w\<lparr>logged := logged w @ [''Invalid inotify descriptor.'']\<rparr>) \<and>
     udev_watch_lookup w wd =
       (- EINVAL, None, w\<lparr>logged := logged w @ [''Invalid inotify descriptor.'']\<rparr>)"
  by (simp add: udev_watch_restore_def udev_watch_begin_def udev_watch_end_def
      udev_watch_lookup_def log_error_errno_def log_error_def returning_def EINVAL_def)

theorem uninitialised_channel_fails_fast_witness:
  "inotify_fd fresh_world < 0 \<and>
   fst (udev_watch_restore fresh_world) = - 22 \<and>
   fst (udev_watch_begin fresh_world disk_sda) = - 22 \<and>
   udev_watch_end fresh_world netif =
     (- 22, netif, fresh_world\<lparr>logged := [''Invalid inotify descriptor.'']\<rparr>) \<and>
   fst (udev_watch_lookup fresh_world 1) = - 22 \<and>
   calls (snd (udev_watch_restore fresh_world)) = []"
proof -
  have h: "inotify_fd fresh_world < 0" by (simp add: fresh_world_def)
  show ?thesis
    using h uninitialised_channel_fails_fast [OF h, of disk_sda 1]
      uninitialised_channel_fails_fast [OF h, of netif 1]
    by (simp add: EINVAL_def fresh_world_def)
qed

subsection \<open>Restore without a registry\<close>

text \<open>
  C9. With the channel initialised and no directory \<^verbatim>\<open>/run/udev/watch\<close>,
  \<open>udev_watch_restore\<close> returns 0 after the one \<^verbatim>\<open>rename\<close> call that fails with
  \<open>ENOENT\<close>: the world differs only in \<open>errno\<close> and the record of that call, so no watch
  is added and no directory \<^verbatim>\<open>/run/udev/watch.old\<close> is created.
\<close>

theorem restore_without_registry_is_noop:
  "0 \<le> inotify_fd w \<Longrightarrow> watch_dir w = None \<Longrightarrow>
     udev_watch_restore w =
       (0, w\<lparr>errno := ENOENT,
              calls := calls w @ [Sys_rename ''/run/udev/watch'' ''/run/udev/watch.old'']\<rparr>)"
  by (simp add: udev_watch_restore_def rename_def called_def failing_def)

theorem restore_without_registry_is_noop_witness:
  "0 \<le> inotify_fd ready_world \<and> watch_dir ready_world = None \<and>
   fst (udev_watch_restore ready_world) = 0 \<and>
   old_dir (snd (udev_watch_restore ready_world)) = None \<and>
   watches (snd (udev_watch_restore ready_world)) = []"
proof -
  have h1: "0 \<le> inotify_fd ready_world" and h2: "watch_dir ready_world = None"
    by (simp_all add: ready_world_def fresh_world_def)
  show ?thesis
    using h1 h2 restore_without_registry_is_noop [OF h1 h2]
    by (simp add: ready_world_def fresh_world_def)
qed

subsection \<open>Initialisation\<close>

lemma inotify_init1_cloexec:
  "inotify_init1 IN_CLOEXEC w =
     (case faults w of
        [] \<Rightarrow> (int (next_fd w),
               w\<lparr>calls := calls w @ [Sys_inotify_init1 IN_CLOEXEC],
                  open_fds := (int (next_fd w), IN_CLOEXEC) # open_fds w,
                  next_fd := Suc (next_fd w)\<rparr>)
      | f # fs \<Rightarrow>
          if f = 0
          then (int (next_fd w),
                w\<lparr>calls := calls w @ [Sys_inotify_init1 IN_CLOEXEC], faults := fs,
                   open_fds := (int (next_fd w), IN_CLOEXEC) # open_fds w,
                   next_fd := Suc (next_fd w)\<rparr>)
          else (- 1, w\<lparr>calls := calls w @ [Sys_inotify_init1 IN_CLOEXEC], faults := fs,
                        errno := int f\<rparr>))"
  by (simp add: inotify_init1_def sys_defs IN_CLOEXEC_def IN_NONBLOCK_def split: list.splits)

lemma IN_CLOEXEC_nonzero: "IN_CLOEXEC \<noteq> 0"
  by (simp add: IN_CLOEXEC_def)

text \<open>
  C1 (amended). \<open>udev_watch_init\<close> makes exactly one call, \<^verbatim>\<open>inotify_init1\<close> with
  the flag \<^verbatim>\<open>IN_CLOEXEC\<close>: the descriptor it obtains is marked close-on-exec. On
  success the descriptor is stored in \<open>inotify_fd\<close> and returned; on failure the result is
  negative, \<open>inotify_fd\<close> holds -1 and no descriptor is open that was not before.
\<close>

theorem udev_watch_init_sets_cloexec:
  "udev_watch_init w = (r, w') \<Longrightarrow>
     calls w' = calls w @ [Sys_inotify_init1 IN_CLOEXEC] \<and>
     (0 \<le> r \<longrightarrow> inotify_fd w' = r \<and> close_on_exec w' r) \<and>
     (r < 0 \<longrightarrow> inotify_fd w' = - 1 \<and> open_fds w' = open_fds w)"
  by (auto simp: udev_watch_init_def inotify_init1_cloexec log_error_errno_def log_error_def
      close_on_exec_def IN_CLOEXEC_nonzero split: list.splits if_splits)

theorem udev_watch_init_sets_cloexec_witness:
  "udev_watch_init fresh_world = (3, ready_world\<lparr>calls := [Sys_inotify_init1 IN_CLOEXEC]\<rparr>) \<and>
   close_on_exec (ready_world\<lparr>calls := [Sys_inotify_init1 IN_CLOEXEC]\<rparr>) 3 \<and>
   udev_watch_init (fresh_world\<lparr>faults := [24]\<rparr>) =
     (- 24, fresh_world\<lparr>errno := 24, calls := [Sys_inotify_init1 IN_CLOEXEC],
                        logged := [''Failed to create inotify descriptor: %m'']\<rparr>) \<and>
   inotify_fd (fresh_world\<lparr>errno := 24, calls := [Sys_inotify_init1 IN_CLOEXEC],
                        logged := [''Failed to create inotify descriptor: %m'']\<rparr>) = - 1"
proof -
  have h: "udev_watch_init fresh_world = (3, ready_world\<lparr>calls := [Sys_inotify_init1 IN_CLOEXEC]\<rparr>)"
    by (simp add: udev_watch_init_def inotify_init1_cloexec fresh_world_def ready_world_def)
  have k: "udev_watch_init (fresh_world\<lparr>faults := [24]\<rparr>) =
     (- 24, fresh_world\<lparr>errno := 24, calls := [Sys_inotify_init1 IN_CLOEXEC],
                        logged := [''Failed to create inotify descriptor: %m'']\<rparr>)"
    by (simp add: udev_watch_init_def inotify_init1_cloexec fresh_world_def log_error_errno_def
        log_error_def)
  show ?thesis
    using h k udev_watch_init_sets_cloexec [OF h] udev_watch_init_sets_cloexec [OF k] by simp
qed

text \<open>
  C1 as stated fails: on a world with nothing injected, the descriptor 3 that
  \<open>udev_watch_init\<close> returns has its close-on-exec flag set, not cleared; the flag word
  passed to the kernel has the bit \<^verbatim>\<open>O_CLOEXEC\<close>.
\<close>

theorem init_descriptor_is_cloexec_example:
  "fst (udev_watch_init fresh_world) = 3 \<and>
   close_on_exec (snd (udev_watch_init fresh_world)) (fst (udev_watch_init fresh_world)) \<and>
   calls (snd (udev_watch_init fresh_world)) = [Sys_inotify_init1 IN_CLOEXEC] \<and>
   IN_CLOEXEC AND 0x80000 = 0x80000"
  by (simp add: udev_watch_init_def inotify_init1_cloexec fresh_world_def close_on_exec_def
      IN_CLOEXEC_nonzero) (simp add: IN_CLOEXEC_def)

subsection \<open>End, and lookup of entries that are missing or too long\<close>

text \<open>
  C2 (amended). With the channel initialised: on a device whose watch handle is not
  set, \<open>udev_watch_end\<close> returns 0 and changes nothing; on a device that has a watch
  handle and a device node it returns 0 and clears the handle, whatever the state of the
  kernel's watches, of the registry and of the fault plan, that is, whether or not
  \<^verbatim>\<open>inotify_rm_watch\<close> and \<^verbatim>\<open>unlink\<close> succeed (both are attempted); and a second call
  right after it returns 0 and leaves the handle cleared.
\<close>

theorem udev_watch_end_clears_handle:
  "0 \<le> inotify_fd w \<Longrightarrow>
     (watch_handle dev < 0 \<longrightarrow> udev_watch_end w dev = (0, dev, w)) \<and>
     (0 \<le> watch_handle dev \<and> devname dev \<noteq> None \<longrightarrow>
        fst (udev_watch_end w dev) = 0 \<and>
        fst (snd (udev_watch_end w dev)) = dev\<lparr>watch_handle := - 1\<rparr> \<and>
        calls (snd (snd (udev_watch_end w dev))) =
          calls w @ [Sys_inotify_rm_watch (inotify_fd w) (watch_handle dev),
                     Sys_unlink (watch_path (watch_handle dev))] \<and>
        udev_watch_end (snd (snd (udev_watch_end w dev))) (fst (snd (udev_watch_end w dev))) =
          (0, dev\<lparr>watch_handle := - 1\<rparr>, snd (snd (udev_watch_end w dev))))"
proof -
  assume fd: "0 \<le> inotify_fd w"
  have unset: "udev_watch_end w' d = (0, d, w')" if "0 \<le> inotify_fd w'" "watch_handle d < 0"
    for w' d
    using that by (simp add: udev_watch_end_def device_get_watch_handle_def)
  have armed: "fst (udev_watch_end w dev) = 0 \<and>
        fst (snd (udev_watch_end w dev)) = dev\<lparr>watch_handle := - 1\<rparr> \<and>
        calls (snd (snd (udev_watch_end w dev))) =
          calls w @ [Sys_inotify_rm_watch (inotify_fd w) (watch_handle dev),
                     Sys_unlink (watch_path (watch_handle dev))]"
    if "0 \<le> watch_handle dev" "devname dev \<noteq> None"
    using that fd
    by (auto simp: udev_watch_end_def device_get_watch_handle_def sd_device_get_devname_def
        device_set_watch_handle_def ENOENT_def split_beta Let_def)
  have again: "udev_watch_end (snd (snd (udev_watch_end w dev))) (fst (snd (udev_watch_end w dev))) =
          (0, dev\<lparr>watch_handle := - 1\<rparr>, snd (snd (udev_watch_end w dev)))"
    if h: "0 \<le> watch_handle dev" "devname dev \<noteq> None"
  proof -
    have "0 \<le> inotify_fd (snd (snd (udev_watch_end w dev)))" using fd by simp
    moreover have "watch_handle (fst (snd (udev_watch_end w dev))) < 0"
      using armed [OF h] by simp
    ultimately show ?thesis using unset armed [OF h] by metis
  qed
  show ?thesis using unset [OF fd] armed again by blast
qed

theorem udev_watch_end_clears_handle_witness:
  "0 \<le> inotify_fd ready_world \<and>
   udev_watch_end ready_world disk_sda = (0, disk_sda, ready_world) \<and>
   fst (udev_watch_end ready_world (disk_sda\<lparr>watch_handle := 7\<rparr>)) = 0 \<and>
   fst (snd (udev_watch_end ready_world (disk_sda\<lparr>watch_handle := 7\<rparr>))) = disk_sda"
proof -
  have h: "0 \<le> inotify_fd ready_world" by (simp add: ready_world_def fresh_world_def)
  have a: "watch_handle disk_sda < 0" by (simp add: disk_sda_def)
  have b: "0 \<le> watch_handle (disk_sda\<lparr>watch_handle := 7\<rparr>) \<and>
           devname (disk_sda\<lparr>watch_handle := 7\<rparr>) \<noteq> None"
    by (simp add: disk_sda_def)
  show ?thesis
    using h a b udev_watch_end_clears_handle [OF h, of disk_sda]
      udev_watch_end_clears_handle [OF h, of "disk_sda\<lparr>watch_handle := 7\<rparr>"]
    by (simp add: disk_sda_def)
qed

text \<open>
  C2 as stated fails: with the channel initialised, \<open>udev_watch_end\<close> on a device that
  holds the handle 5 and has no device node returns \<open>-ENOENT\<close>, makes no call and leaves
  the handle 5 in place.
\<close>

theorem end_without_node_fails_example:
  "0 \<le> inotify_fd ready_world \<and>
   fst (udev_watch_end ready_world netif) = - ENOENT \<and>
   watch_handle (fst (snd (udev_watch_end ready_world netif))) = 5 \<and>
   calls (snd (snd (udev_watch_end ready_world netif))) = []"
  by (simp add: udev_watch_end_def ready_world_def fresh_world_def netif_def
      device_get_watch_handle_def sd_device_get_devname_def returning_def ENOENT_def)

text \<open>
  C7. With the channel initialised, \<open>udev_watch_lookup\<close> of a non-negative handle
  that has no registry entry (the directory may be missing altogether) returns 0 and
  stores no device: \<^verbatim>\<open>readlink\<close> fails with \<open>ENOENT\<close>, and nothing is logged.
\<close>

theorem lookup_missing_entry_not_found:
  "0 \<le> inotify_fd w \<Longrightarrow> 0 \<le> wd \<Longrightarrow> registry_entry w wd = None \<Longrightarrow>
     udev_watch_lookup w wd =
       (0, None, w\<lparr>errno := ENOENT, calls := calls w @ [Sys_readlink (watch_path wd)]\<rparr>)"
  by (simp add: udev_watch_lookup_def readlink_def watch_entry_name_watch_path registry_entry_def
      called_def failing_def Let_def split: option.splits)

lemma fmt_d_7: "fmt_d 7 = ''7''"
  by (simp add: fmt_d_def digits10.simps digit_char_def)

theorem lookup_missing_entry_not_found_witness:
  "0 \<le> inotify_fd ready_world \<and> (0::int) \<le> 7 \<and> registry_entry ready_world 7 = None \<and>
   fst (udev_watch_lookup ready_world 7) = 0 \<and>
   fst (snd (udev_watch_lookup ready_world 7)) = None"
proof -
  have h: "0 \<le> inotify_fd ready_world" by (simp add: ready_world_def fresh_world_def)
  have e: "registry_entry ready_world 7 = None"
    by (simp add: registry_entry_def ready_world_def fresh_world_def)
  show ?thesis using h e lookup_missing_entry_not_found [OF h _ e] by simp
qed

text \<open>
  C8. With the channel initialised, \<open>udev_watch_lookup\<close> of a handle whose entry is a
  link with a target of \<open>PATH_MAX\<close> bytes or more never stores a device, whatever the
  fault plan; when \<^verbatim>\<open>readlink\<close> is not hindered it returns \<open>-ENAMETOOLONG\<close>.
\<close>

theorem lookup_oversized_target_is_error:
  "0 \<le> inotify_fd w \<Longrightarrow> 0 \<le> wd \<Longrightarrow> registry_entry w wd = Some (Symlink t) \<Longrightarrow>
   PATH_MAX \<le> length t \<Longrightarrow>
     fst (snd (udev_watch_lookup w wd)) = None \<and>
     (next_call_unhindered w \<longrightarrow> fst (udev_watch_lookup w wd) = - ENAMETOOLONG)"
  by (auto simp: udev_watch_lookup_def readlink_def watch_entry_name_watch_path registry_entry_def
      next_call_unhindered_def log_error_errno_def
      sys_defs ENAMETOOLONG_def PATH_MAX_def split: option.splits list.splits)

theorem lookup_oversized_target_is_error_witness:
  "0 \<le> inotify_fd ready_world \<and> (0::int) \<le> 7 \<and>
   registry_entry (ready_world\<lparr>watch_dir := Some [(''7'', Symlink long_target)]\<rparr>) 7
     = Some (Symlink long_target) \<and>
   PATH_MAX \<le> length long_target \<and>
   udev_watch_lookup (ready_world\<lparr>watch_dir := Some [(''7'', Symlink long_target)]\<rparr>) 7 = 
     (- 36, None, ready_world\<lparr>watch_dir := Some [(''7'', Symlink long_target)], 
         logged := [''Path specified by link is truncated: /run/udev/watch/7''],
         calls := [Sys_readlink ''/run/udev/watch/7'']\<rparr>)"
proof -
  let ?w = "ready_world\<lparr>watch_dir := Some [(''7'', Symlink long_target)]\<rparr>"
  have h: "0 \<le> inotify_fd ?w" by (simp add: ready_world_def fresh_world_def)
  have e: "registry_entry ?w 7 = Some (Symlink long_target)"
    by (simp add: registry_entry_def fmt_d_7)
  have l: "PATH_MAX \<le> length long_target" by (simp add: PATH_MAX_def long_target_def)
  have u: "next_call_unhindered ?w"
    by (simp add: next_call_unhindered_def next_fault_def ready_world_def fresh_world_def)
  show ?thesis using h e l u lookup_oversized_target_is_error [OF h _ e l] 
    by (simp add: ENAMETOOLONG_def udev_watch_lookup_def readlink_def watch_path_def fmt_d_7
       watch_entry_name_def sys_defs PATH_MAX_def long_target_def log_error_errno_def log_error_def
       ready_world_def fresh_world_def)
qed

subsection \<open>Restore\<close>

lemmas example_defs = fresh_world_def ready_world_def stale_registry_def hidden_registry_def
  dotted_registry_def disk_sda_def netif_def example_sysfs_def relocated_registry_def

lemmas call_defs = rename_def opendir_def readdir_def readdir_end_def readlinkat_def unlinkat_def
  closedir_def rmdir_def mkdir_parents_def unlink_def symlink_def readlink_def
  inotify_add_watch_def inotify_rm_watch_def sys_defs log_error_errno_def log_error_def log_debug_def


lemma restore_attempt_frame [simp]:
  "inotify_fd (restore_attempt w name) = inotify_fd w"
  "sysfs (restore_attempt w name) = sysfs w"
  "old_dir (restore_attempt w name) = old_dir w"
  "faults w = [] \<Longrightarrow> faults (restore_attempt w name) = []"
  by (simp_all add: restore_attempt_def split_beta Let_def split: option.splits)


lemma unlinkat_old_dir:
  "old_dir w = Some es \<Longrightarrow>
     old_dir (snd (unlinkat n w)) = Some es \<or> old_dir (snd (unlinkat n w)) = Some (remove_entry n es)"
  by (simp add: unlinkat_def sys_defs split: option.splits node.splits list.splits)

lemma remove_entry_absent: "map_of es n = None \<Longrightarrow> remove_entry n es = es"
  by (auto simp: remove_entry_def map_of_eq_None_iff filter_id_conv)

lemma unlinkat_removes:
  "faults w = [] \<Longrightarrow> old_dir w = Some es \<Longrightarrow> map_of es n \<noteq> Some Subdir \<Longrightarrow>
     old_dir (snd (unlinkat n w)) = Some (remove_entry n es)"
  by (simp add: unlinkat_def sys_defs remove_entry_absent split: option.splits node.splits)

lemma restore_entry_dot: "dot_name name \<Longrightarrow> restore_entry w name = w"
  by (simp add: restore_entry_def)

lemma restore_entry_keeps:
  assumes "old_dir w = Some es" "(name, nd) \<in> set es" "dot_name name"
  shows "\<exists>es'. old_dir (restore_entry w n) = Some es' \<and> (name, nd) \<in> set es'"
proof (cases "dot_name n")
  case True
  then show ?thesis using assms by (simp add: restore_entry_dot)
next
  case False
  then have ne: "n \<noteq> name" using assms(3) by auto
  have "old_dir (restore_attempt w n) = Some es" using assms(1) by simp
  from unlinkat_old_dir [OF this, of n] show ?thesis
    using False assms(2) ne by (auto simp: restore_entry_def remove_entry_def)
qed

lemma restore_loop_keeps:
  "old_dir w = Some es \<Longrightarrow> (name, nd) \<in> set es \<Longrightarrow> dot_name name \<Longrightarrow>
     \<exists>es'. old_dir (restore_loop w names) = Some es' \<and> (name, nd) \<in> set es'"
proof (induction names arbitrary: w es)
  case Nil
  then show ?case by simp
next
  case (Cons n names)
  have od: "old_dir (snd (readdir w)) = Some es" using Cons.prems(1) by simp
  show ?case
  proof (cases "fst (readdir w)")
    case False
    then show ?thesis using od Cons.prems(2) by (simp add: split_beta)
  next
    case True
    from restore_entry_keeps [OF od Cons.prems(2,3), of n]
    obtain es' where "old_dir (restore_entry (snd (readdir w)) n) = Some es'" "(name, nd) \<in> set es'"
      by blast
    from Cons.IH [OF this Cons.prems(3)] show ?thesis using True by (simp add: split_beta)
  qed
qed

lemma rename_ok:
  "fst (rename a b w) = 0 \<Longrightarrow> old_dir (snd (rename a b w)) = watch_dir w"
  by (auto simp: rename_def sys_defs split: option.splits if_splits list.splits)

lemma rmdir_nonempty:
  "old_dir w = Some es \<Longrightarrow> es \<noteq> [] \<Longrightarrow> old_dir (snd (rmdir p w)) = Some es"
  by (cases es) (simp_all add: rmdir_def sys_defs)

text \<open>
  C10. For an entry whose name begins with a dot the loop body does nothing at all: the
  world after it is the world before it, so the target is not read, no watch is added
  and the entry is not unlinked. Once the registry has been relocated, such an entry is
  still in \<^verbatim>\<open>/run/udev/watch.old\<close> when \<open>udev_watch_restore\<close> returns, whatever the fault
  plan: the directory is not empty and the final \<^verbatim>\<open>rmdir\<close> has not removed it.
\<close>

theorem dot_entries_are_skipped:
  "dot_name name \<Longrightarrow>
     restore_entry w name = w \<and>
     (0 \<le> inotify_fd w \<and> watch_dir w = Some es \<and> (name, nd) \<in> set es \<and>
      fst (rename ''/run/udev/watch'' ''/run/udev/watch.old'' w) = 0 \<longrightarrow>
        (\<exists>es'. old_dir (snd (udev_watch_restore w)) = Some es' \<and> (name, nd) \<in> set es'))"
proof (intro conjI impI)
  assume dot: "dot_name name"
  then show "restore_entry w name = w" by (rule restore_entry_dot)
  assume h: "0 \<le> inotify_fd w \<and> watch_dir w = Some es \<and> (name, nd) \<in> set es \<and>
      fst (rename ''/run/udev/watch'' ''/run/udev/watch.old'' w) = 0"
  define w1 where "w1 = snd (rename ''/run/udev/watch'' ''/run/udev/watch.old'' w)"
  define w2 where "w2 = snd (opendir ''/run/udev/watch.old'' w1)"
  have o1: "old_dir w1 = Some es" using h rename_ok [of _ _ w] by (simp add: w1_def)
  then have o2: "old_dir w2 = Some es" by (simp add: w2_def)
  show "\<exists>es'. old_dir (snd (udev_watch_restore w)) = Some es' \<and> (name, nd) \<in> set es'"
  proof (cases "fst (opendir ''/run/udev/watch.old'' w1)")
    case None
    then show ?thesis using h o2
      by (simp add: udev_watch_restore_def split_beta w1_def w2_def)
  next
    case (Some names)
    from restore_loop_keeps [OF o2 _ dot, of nd names] h
    obtain es' where e: "old_dir (restore_loop w2 names) = Some es'" "(name, nd) \<in> set es'"
      by blast
    then have "es' \<noteq> []" by auto
    with e have "old_dir (snd (rmdir ''/run/udev/watch.old'' (closedir (restore_loop w2 names)))) = Some es'"
      by (simp add: rmdir_nonempty)
    then show ?thesis using h Some e
      by (simp add: udev_watch_restore_def split_beta w1_def w2_def Let_def)
  qed
qed

theorem dot_entries_are_skipped_witness:
  "dot_name ''.x'' \<and>
   restore_entry dotted_registry ''.x'' = dotted_registry \<and>
   fst (rename ''/run/udev/watch'' ''/run/udev/watch.old'' dotted_registry) = 0 \<and>
   (\<exists>es'. old_dir (snd (udev_watch_restore dotted_registry)) = Some es' \<and>
          (''.x'', Symlink ''b8:0'') \<in> set es')"
proof -
  have d: "dot_name ''.x''" by (simp add: dot_name_def)
  have h: "0 \<le> inotify_fd dotted_registry \<and>
      watch_dir dotted_registry = Some [(''.x'', Symlink ''b8:0''), (''4'', Symlink ''b8:0'')] \<and>
      (''.x'', Symlink ''b8:0'') \<in> set [(''.x'', Symlink ''b8:0''), (''4'', Symlink ''b8:0'')] \<and>
      fst (rename ''/run/udev/watch'' ''/run/udev/watch.old'' dotted_registry) = 0"
    by (simp add: example_defs rename_def sys_defs)
  show ?thesis
    using d h dot_entries_are_skipped [OF d, of dotted_registry
        "[(''.x'', Symlink ''b8:0''), (''4'', Symlink ''b8:0'')]" "Symlink ''b8:0''"]
    by blast
qed

lemma readdir_unhindered:
  "faults w = [] \<Longrightarrow> fst (readdir w) = True"
  by (simp add: readdir_def sys_defs)

lemma restore_entry_removes:
  assumes "faults w = []" "old_dir w = Some es" "map_of es n \<noteq> Some Subdir" "\<not> dot_name n"
  shows "old_dir (restore_entry w n) = Some (remove_entry n es) \<and> faults (restore_entry w n) = []"
proof -
  have "faults (restore_attempt w n) = []" "old_dir (restore_attempt w n) = Some es"
    using assms by simp_all
  then show ?thesis using assms(3,4) by (simp add: restore_entry_def unlinkat_removes)
qed

lemma restore_loop_empties:
  "faults w = [] \<Longrightarrow> old_dir w = Some es \<Longrightarrow>
   \<forall>e \<in> set es. \<not> dot_name (fst e) \<and> snd e \<noteq> Subdir \<Longrightarrow> fst ` set es \<subseteq> set names \<Longrightarrow>
     old_dir (restore_loop w names) = Some [] \<and> faults (restore_loop w names) = []"
proof (induction names arbitrary: w es)
  case Nil
  then show ?case by simp
next
  case (Cons n names)
  let ?w1 = "snd (readdir w)"
  have f1: "faults ?w1 = []" and o1: "old_dir ?w1 = Some es" using Cons.prems by simp_all
  have rd: "fst (readdir w)" using Cons.prems(1) by (simp add: readdir_unhindered)
  show ?case
  proof (cases "dot_name n")
    case True
    then have "n \<notin> fst ` set es" using Cons.prems(3) by auto
    then have "fst ` set es \<subseteq> set names" using Cons.prems(4) by auto
    from Cons.IH [OF f1 o1 Cons.prems(3) this] show ?thesis
      using rd True by (simp add: split_beta restore_entry_dot)
  next
    case False
    have "map_of es n \<noteq> Some Subdir"
      using Cons.prems(3) by (auto dest!: map_of_SomeD)
    from restore_entry_removes [OF f1 o1 this False]
    have o2: "old_dir (restore_entry ?w1 n) = Some (remove_entry n es)"
      and f2: "faults (restore_entry ?w1 n) = []" by simp_all
    have p: "\<forall>e \<in> set (remove_entry n es). \<not> dot_name (fst e) \<and> snd e \<noteq> Subdir"
      using Cons.prems(3) by (simp add: remove_entry_def)
    have s: "fst ` set (remove_entry n es) \<subseteq> set names"
      using Cons.prems(4) by (auto simp: remove_entry_def)
    from Cons.IH [OF f2 o2 p s] show ?thesis using rd by (simp add: split_beta)
  qed
qed

lemma rename_unhindered:
  "faults w = [] \<Longrightarrow> watch_dir w = Some es \<Longrightarrow> old_dir w = None \<or> old_dir w = Some [] \<Longrightarrow>
     fst (rename ''/run/udev/watch'' ''/run/udev/watch.old'' w) = 0"
  by (auto simp: rename_def sys_defs)

lemma opendir_unhindered:
  "faults w = [] \<Longrightarrow> old_dir w = Some es \<Longrightarrow>
     fst (opendir ''/run/udev/watch.old'' w) = Some (''.'' # ''..'' # map fst es)"
  by (simp add: opendir_def sys_defs)

lemma rmdir_empty:
  "faults w = [] \<Longrightarrow> old_dir w = Some [] \<Longrightarrow>
     old_dir (snd (rmdir ''/run/udev/watch.old'' w)) = None"
  by (simp add: rmdir_def sys_defs)

text \<open>
  C3 (amended). With the channel initialised, no injected failure, a registry to
  relocate and no old directory in the way (or an empty one): when no entry of the
  registry has a name that begins with a dot and none is a subdirectory,
  \<open>udev_watch_restore\<close> returns 0 and \<^verbatim>\<open>/run/udev/watch.old\<close> does not exist afterwards,
  whether the entries could be re-armed or not.
\<close>

theorem restore_removes_old_dir:
  assumes "0 \<le> inotify_fd w" and "faults w = []" and "watch_dir w = Some es"
    and "old_dir w = None \<or> old_dir w = Some []"
    and "\<forall>e \<in> set es. \<not> dot_name (fst e) \<and> snd e \<noteq> Subdir"
  shows "fst (udev_watch_restore w) = 0 \<and> old_dir (snd (udev_watch_restore w)) = None"
proof -
  define w1 where "w1 = snd (rename ''/run/udev/watch'' ''/run/udev/watch.old'' w)"
  define w2 where "w2 = snd (opendir ''/run/udev/watch.old'' w1)"
  define names where "names = ''.'' # ''..'' # map fst es"
  have r: "fst (rename ''/run/udev/watch'' ''/run/udev/watch.old'' w) = 0"
    using assms by (simp add: rename_unhindered)
  have f1: "faults w1 = []" using assms(2) by (simp add: w1_def)
  have o1: "old_dir w1 = Some es" using r rename_ok [of _ _ w] assms(3) by (simp add: w1_def)
  have od: "fst (opendir ''/run/udev/watch.old'' w1) = Some names"
    using f1 o1 by (simp add: opendir_unhindered names_def)
  have f2: "faults w2 = []" and o2: "old_dir w2 = Some es" using f1 o1 by (simp_all add: w2_def)
  have "fst ` set es \<subseteq> set names" by (auto simp: names_def)
  from restore_loop_empties [OF f2 o2 assms(5) this]
  have "old_dir (closedir (restore_loop w2 names)) = Some []"
    and "faults (closedir (restore_loop w2 names)) = []" by simp_all
  then have "old_dir (snd (rmdir ''/run/udev/watch.old'' (closedir (restore_loop w2 names)))) = None"
    by (simp add: rmdir_empty)
  then show ?thesis using assms(1) r od
    by (simp add: udev_watch_restore_def split_beta Let_def w1_def w2_def)
qed

theorem restore_removes_old_dir_witness:
  "0 \<le> inotify_fd stale_registry \<and> faults stale_registry = [] \<and>
   watch_dir stale_registry = Some [(''1'', Symlink ''b8:0''), (''7'', Symlink ''zz'')] \<and>
   old_dir stale_registry = None \<and>
   fst (udev_watch_restore stale_registry) = 0 \<and>
   old_dir (snd (udev_watch_restore stale_registry)) = None"
proof -
  have a: "0 \<le> inotify_fd stale_registry" "faults stale_registry = []"
    "watch_dir stale_registry = Some [(''1'', Symlink ''b8:0''), (''7'', Symlink ''zz'')]"
    by (simp_all add: example_defs)
  have b: "old_dir stale_registry = None \<or> old_dir stale_registry = Some []"
    by (simp add: example_defs)
  have c: "\<forall>e \<in> set [(''1'', Symlink ''b8:0''), (''7'', Symlink ''zz'')].
             \<not> dot_name (fst e) \<and> snd e \<noteq> Subdir"
    by (simp add: dot_name_def)
  show ?thesis using a b restore_removes_old_dir [OF a b c] by (simp add: example_defs)
qed

text \<open>
  C3 as stated fails: on a registry that holds a file named \<^verbatim>\<open>.keep\<close>,
  \<open>udev_watch_restore\<close> returns 0 and \<^verbatim>\<open>/run/udev/watch.old\<close> exists afterwards, with
  that file in it.
\<close>

theorem old_dir_survives_restore_example:
  "fst (udev_watch_restore hidden_registry) = 0 \<and>
   old_dir (snd (udev_watch_restore hidden_registry)) = Some [(''.keep'', Regular)]"
  by (simp add: udev_watch_restore_def hidden_registry_def ready_world_def fresh_world_def
      call_defs restore_entry_def dot_name_def)










subsection \<open>Begin, then lookup\<close>

lemma digit_char_inj: "digit_char m = digit_char n \<Longrightarrow> m mod 10 = n mod 10"
proof -
  assume a: "digit_char m = digit_char n"
  have d: "distinct ''0123456789''" by simp
  have "m mod 10 < length ''0123456789''" "n mod 10 < length ''0123456789''" by simp_all
  from nth_eq_iff_index_eq [OF d this] a show ?thesis by (simp add: digit_char_def)
qed

lemma digits10_inj: "digits10 m = digits10 n \<Longrightarrow> m = n"
proof (induction m arbitrary: n rule: digits10.induct)
  case (1 m)
  show ?case
  proof (cases "m < 10")
    case small_m: True
    show ?thesis
    proof (cases "n < 10")
      case True
      have "digit_char m = digit_char n"
        using "1.prems" small_m True by (simp add: digits10.simps [of m] digits10.simps [of n])
      from digit_char_inj [OF this] small_m True show ?thesis by simp
    next
      case False
      then show ?thesis using "1.prems" small_m digits10_nonempty [of "n div 10"]
        by (simp add: digits10.simps [of m] digits10.simps [of n])
    qed
  next
    case big_m: False
    show ?thesis
    proof (cases "n < 10")
      case True
      then show ?thesis using "1.prems" big_m digits10_nonempty [of "m div 10"]
        by (simp add: digits10.simps [of m] digits10.simps [of n])
    next
      case False
      have e: "digits10 (m div 10) = digits10 (n div 10) \<and> digit_char (m mod 10) = digit_char (n mod 10)"
        using "1.prems" big_m False by (simp add: digits10.simps [of m] digits10.simps [of n])
      then have dv: "m div 10 = n div 10" using "1.IH" big_m by blast
      have md: "m mod 10 = n mod 10" using e digit_char_inj [of "m mod 10" "n mod 10"] by simp
      have "m div 10 * 10 + m mod 10 = n div 10 * 10 + n mod 10" using dv md by simp
      then show ?thesis by simp
    qed
  qed
qed

lemma digits10_no_minus: "CHR ''-'' \<notin> set (digits10 n)"
  using digits10_chars [of n] by auto

lemma fmt_d_inj: "fmt_d i = fmt_d j \<Longrightarrow> i = j"
proof -
  assume a: "fmt_d i = fmt_d j"
  have hd_digit: "hd (digits10 n) \<noteq> CHR ''-''" for n
    using digits10_no_minus [of n] digits10_nonempty [of n] by (cases "digits10 n") auto
  show ?thesis
  proof (cases "i < 0")
    case ni: True
    show ?thesis
    proof (cases "j < 0")
      case True
      then have "nat (- i) = nat (- j)" using a ni by (simp add: fmt_d_def digits10_inj)
      then show ?thesis using ni True by simp
    next
      case False
      then have "CHR ''-'' # digits10 (nat (- i)) = digits10 (nat j)"
        using a ni by (simp add: fmt_d_def)
      then show ?thesis using hd_digit [of "nat j"] by (metis list.sel(1))
    qed
  next
    case pi: False
    show ?thesis
    proof (cases "j < 0")
      case True
      then have "digits10 (nat i) = CHR ''-'' # digits10 (nat (- j))"
        using a pi by (simp add: fmt_d_def)
      then show ?thesis using hd_digit [of "nat i"] by (metis list.sel(1))
    next
      case False
      then have "nat i = nat j" using a pi by (simp add: fmt_d_def digits10_inj)
      then show ?thesis using pi False by simp
    qed
  qed
qed

lemma map_of_remove_entry: "k \<noteq> n \<Longrightarrow> map_of (remove_entry n es) k = map_of es k"
  by (induction es) (auto simp: remove_entry_def)

lemma unlink_registry_entry:
  "wd' \<noteq> wd \<Longrightarrow> registry_entry (snd (unlink (watch_path wd') w)) wd = registry_entry w wd"
proof -
  assume "wd' \<noteq> wd"
  then have "fmt_d wd \<noteq> fmt_d wd'" using fmt_d_inj [of wd wd'] by blast
  then show ?thesis
    by (auto simp: unlink_def registry_entry_def watch_entry_name_watch_path sys_defs
        map_of_remove_entry split: option.splits node.splits list.splits)
qed

lemma symlink_registry_entry:
  "wd' \<noteq> wd \<Longrightarrow> registry_entry (snd (symlink t (watch_path wd') w)) wd = registry_entry w wd"
proof -
  assume "wd' \<noteq> wd"
  then have "fmt_d wd \<noteq> fmt_d wd'" using fmt_d_inj [of wd wd'] by blast
  then show ?thesis
    by (auto simp: symlink_def registry_entry_def watch_entry_name_watch_path sys_defs
        map_add_def split: option.splits list.splits)
qed

lemma mkdir_parents_registry_entry:
  "registry_entry (snd (mkdir_parents p w)) wd = registry_entry w wd"
  by (auto simp: mkdir_parents_def registry_entry_def sys_defs split: option.splits list.splits)

lemma registry_entry_frame [simp]:
  "registry_entry (snd (inotify_add_watch fd p m w)) wd = registry_entry w wd"
  "registry_entry (snd (inotify_rm_watch fd k w)) wd = registry_entry w wd"
  "registry_entry (snd (snd (readlink p b w))) wd = registry_entry w wd"
  "registry_entry (log_error msg w) wd = registry_entry w wd"
  "registry_entry (log_debug msg w) wd = registry_entry w wd"
  by (simp_all add: registry_entry_def)

lemma udev_watch_lookup_frame [simp]:
  "inotify_fd (snd (snd (udev_watch_lookup w h))) = inotify_fd w"
  "sysfs (snd (snd (udev_watch_lookup w h))) = sysfs w"
  "watch_dir (snd (snd (udev_watch_lookup w h))) = watch_dir w"
  "old_dir (snd (snd (udev_watch_lookup w h))) = old_dir w"
  by (simp_all add: udev_watch_lookup_def split_beta Let_def)

lemma udev_watch_end_registry_entry:
  "watch_handle dev \<noteq> wd \<Longrightarrow>
     registry_entry (snd (snd (udev_watch_end w dev))) wd = registry_entry w wd"
  by (simp add: udev_watch_end_def returning_def split_beta Let_def device_get_watch_handle_def
      unlink_registry_entry)

lemma udev_watch_begin_registry_entry:
  assumes "watch_handle (fst (snd (udev_watch_begin w dev))) \<noteq> wd"
  shows "registry_entry (snd (snd (udev_watch_begin w dev))) wd = registry_entry w wd"
proof -
  let ?devnode = "snd (sd_device_get_devname dev)"
  let ?aw = "inotify_add_watch (inotify_fd w) ?devnode IN_CLOSE_WRITE
               (log_debug (''Adding watch on '' @ ?devnode) w)"
  show ?thesis
  proof (cases "inotify_fd w < 0 \<or> fst (sd_device_get_devname dev) < 0 \<or> fst ?aw < 0")
    case True
    then show ?thesis
      by (auto simp: udev_watch_begin_def returning_def split_beta Let_def)
  next
    case False
    then have "fst (snd (udev_watch_begin w dev)) = dev\<lparr>watch_handle := fst ?aw\<rparr>"
      by (simp add: udev_watch_begin_def returning_def split_beta Let_def
          device_set_watch_handle_def)
    then have "fst ?aw \<noteq> wd" using assms by simp
    then show ?thesis using False
      by (simp add: udev_watch_begin_def returning_def split_beta Let_def
          unlink_registry_entry symlink_registry_entry mkdir_parents_registry_entry)
  qed
qed

lemma undisturbed_keeps:
  "undisturbed wd w w' \<Longrightarrow>
     registry_entry w' wd = registry_entry w wd \<and> inotify_fd w' = inotify_fd w \<and> sysfs w' = sysfs w"
proof (induction rule: undisturbed.induct)
  case (undisturbed_refl w)
  show ?case by simp
next
  case (undisturbed_lookup w w1 h r ret w2)
  have "w2 = snd (snd (udev_watch_lookup w1 h))" using undisturbed_lookup.hyps(2) by simp
  then show ?case using undisturbed_lookup.IH by (simp add: registry_entry_def)
next
  case (undisturbed_end w w1 dev r dev' w2)
  have "w2 = snd (snd (udev_watch_end w1 dev))" using undisturbed_end.hyps(3) by simp
  then show ?case using undisturbed_end.IH undisturbed_end.hyps(2)
    by (simp add: udev_watch_end_registry_entry)
next
  case (undisturbed_begin w w1 dev r dev' w2)
  have "w2 = snd (snd (udev_watch_begin w1 dev))" "dev' = fst (snd (udev_watch_begin w1 dev))"
    using undisturbed_begin.hyps(2) by simp_all
  then show ?case using undisturbed_begin.IH undisturbed_begin.hyps(3)
    by (simp add: udev_watch_begin_registry_entry)
qed

lemma lookup_registered:
  "0 \<le> inotify_fd w \<Longrightarrow> 0 \<le> wd \<Longrightarrow> registered w wd ident \<Longrightarrow> next_call_unhindered w \<Longrightarrow>
   sysfs w ident = Some dev \<Longrightarrow>
     fst (udev_watch_lookup w wd) = 0 \<and> fst (snd (udev_watch_lookup w wd)) = Some dev"
  by (auto simp: udev_watch_lookup_def registered_def registry_entry_def readlink_def
      watch_entry_name_watch_path next_call_unhindered_def sys_defs
      sd_device_new_from_device_id_def split: option.splits list.splits)

lemma inotify_add_watch_errno:
  "fst (inotify_add_watch fd p m w) < 0 \<Longrightarrow> (errno (snd (inotify_add_watch fd p m w)) = 0) = False"
  by (auto simp: inotify_add_watch_def sys_defs errno_defs split: option.splits list.splits if_splits)

lemma symlink_errno:
  "fst (symlink t p w) < 0 \<Longrightarrow> (errno (snd (symlink t p w)) = 0) = False"
  by (auto simp: symlink_def sys_defs errno_defs split: option.splits list.splits if_splits)

lemma symlink_ok:
  "\<not> fst (symlink t (watch_path wd) w) < 0 \<Longrightarrow>
     registry_entry (snd (symlink t (watch_path wd) w)) wd = Some (Symlink t) \<and>
     t \<noteq> [] \<and> length t < PATH_MAX"
  by (auto simp: symlink_def registry_entry_def watch_entry_name_watch_path sys_defs map_add_def
      split: option.splits list.splits if_splits)

lemma begin_registers:
  assumes "fst (udev_watch_begin w dev) = 0"
  shows "\<exists>ident. id_filename dev = Some ident \<and>
           registered (snd (snd (udev_watch_begin w dev)))
             (watch_handle (fst (snd (udev_watch_begin w dev)))) ident \<and>
           0 \<le> inotify_fd w \<and> 0 \<le> watch_handle (fst (snd (udev_watch_begin w dev)))"
  using assms
  by (auto simp: udev_watch_begin_def returning_def split_beta Let_def EINVAL_def ENOENT_def
      registered_def inotify_add_watch_errno symlink_errno symlink_ok
      sd_device_get_devname_def device_get_id_filename_def device_set_watch_handle_def
      split: if_splits option.splits)

lemma udev_watch_faults [simp]:
  "faults w = [] \<Longrightarrow> faults (snd (snd (udev_watch_lookup w h))) = []"
  "faults w = [] \<Longrightarrow> faults (snd (snd (udev_watch_end w dev))) = []"
  by (simp_all add: udev_watch_lookup_def udev_watch_end_def returning_def split_beta Let_def)

text \<open>
  C4 (amended). When \<open>udev_watch_begin\<close> on a device returns 0 and has assigned it the
  handle \<open>wd\<close>, then in every world reached from there by lookups, by \<open>udev_watch_end\<close>
  on devices that hold another handle and by \<open>udev_watch_begin\<close> calls that leave their
  device with another handle, \<open>udev_watch_lookup wd\<close> returns 0 and the device that the
  device's own identifier resolves to (given that it resolves, and that \<^verbatim>\<open>readlink\<close> is
  not hindered).
\<close>

theorem lookup_finds_begun_device:
  assumes "udev_watch_begin w d = (0, d1, w1)"
    and "undisturbed (watch_handle d1) w1 w2"
    and "id_filename d = Some ident"
    and "sysfs w2 ident = Some dev"
    and "next_call_unhindered w2"
  shows "fst (udev_watch_lookup w2 (watch_handle d1)) = 0 \<and>
         fst (snd (udev_watch_lookup w2 (watch_handle d1))) = Some dev"
proof -
  have r: "fst (udev_watch_begin w d) = 0" and d1: "d1 = fst (snd (udev_watch_begin w d))"
    and w1: "w1 = snd (snd (udev_watch_begin w d))"
    using assms(1) by simp_all
  from begin_registers [OF r] assms(3)
  have reg: "registered w1 (watch_handle d1) ident" and fd: "0 \<le> inotify_fd w"
    and wd: "0 \<le> watch_handle d1"
    by (auto simp: d1 w1)
  have fd1: "0 \<le> inotify_fd w1" using fd by (simp add: w1)
  from undisturbed_keeps [OF assms(2)]
  have "registered w2 (watch_handle d1) ident" and "0 \<le> inotify_fd w2"
    using reg fd1 by (simp_all add: registered_def)
  then show ?thesis using wd assms(4,5) by (simp add: lookup_registered)
qed

lemma begin_example:
  "udev_watch_begin ready_world disk_sda = (0, disk_sda\<lparr>watch_handle := 1\<rparr>, begun_world)"
  by (simp add: begun_world_def ready_world_def fresh_world_def disk_sda_def
      udev_watch_begin_def returning_def sd_device_get_devname_def device_get_id_filename_def
      device_set_watch_handle_def watch_path_def fmt_d_def digits10.simps digit_char_def
      watch_entry_name_def watch_of_inode_def inotify_add_watch_def mkdir_parents_def unlink_def
      symlink_def log_debug_def sys_defs PATH_MAX_def ENOENT_def IN_CLOEXEC_def)

theorem lookup_finds_begun_device_witness:
  "udev_watch_begin ready_world disk_sda = (0, disk_sda\<lparr>watch_handle := 1\<rparr>, begun_world) \<and>
   id_filename disk_sda = Some ''b8:0'' \<and>
   fst (udev_watch_lookup
          (snd (snd (udev_watch_end (snd (snd (udev_watch_lookup begun_world 9))) netif))) 1) = 0 \<and>
   fst (snd (udev_watch_lookup
          (snd (snd (udev_watch_end (snd (snd (udev_watch_lookup begun_world 9))) netif))) 1))
     = Some disk_sda"
proof -
  let ?wa = "snd (snd (udev_watch_lookup begun_world 9))"
  let ?wb = "snd (snd (udev_watch_end ?wa netif))"
  have u1: "undisturbed 1 begun_world ?wa"
    by (rule undisturbed_lookup [OF undisturbed_refl, of _ 9 "fst (udev_watch_lookup begun_world 9)"
          "fst (snd (udev_watch_lookup begun_world 9))"]) simp
  have u2: "undisturbed 1 begun_world ?wb"
    by (rule undisturbed_end [OF u1, of netif "fst (udev_watch_end ?wa netif)"
          "fst (snd (udev_watch_end ?wa netif))"]) (simp_all add: netif_def)
  have i: "id_filename disk_sda = Some ''b8:0''" by (simp add: disk_sda_def)
  have f: "faults begun_world = []" by (simp add: begun_world_def ready_world_def fresh_world_def)
  have s: "sysfs ?wb ''b8:0'' = Some disk_sda"
    by (simp add: begun_world_def ready_world_def fresh_world_def example_sysfs_def)
  have n: "next_call_unhindered ?wb"
    using f by (simp add: next_call_unhindered_def next_fault_def)
  have u2': "undisturbed (watch_handle (disk_sda\<lparr>watch_handle := 1\<rparr>)) begun_world ?wb"
    using u2 by simp
  show ?thesis
    using begin_example i lookup_finds_begun_device [OF begin_example u2' i s n]
    by simp
qed

text \<open>
  C4 as stated fails, with no \<open>udev_watch_end\<close> and no new channel in between. After
  \<open>udev_watch_begin\<close> on the disk has assigned it the handle 1, a begin on a second
  device whose node is another path to the same inode is given the handle 1 again and
  replaces the link: lookup of 1 returns the second device, whose identifier is another.
  And a second begin on the disk itself whose \<^verbatim>\<open>symlink\<close> fails (errno 28, no space) has
  already unlinked the entry: the disk keeps the handle 1 and lookup of 1 finds nothing.
\<close>

lemmas begin_eval_defs = udev_watch_begin_def udev_watch_lookup_def returning_def
  sd_device_get_devname_def device_get_id_filename_def device_set_watch_handle_def
  sd_device_new_from_device_id_def watch_path_def fmt_d_def digits10.simps digit_char_def
  watch_entry_name_def watch_of_inode_def remove_entry_def inotify_add_watch_def
  mkdir_parents_def unlink_def symlink_def readlink_def log_debug_def log_error_errno_def
  log_error_def sys_defs PATH_MAX_def errno_defs IN_CLOEXEC_def

theorem later_begin_takes_over_handle_example:
  "udev_watch_begin ready_world disk_sda = (0, disk_sda\<lparr>watch_handle := 1\<rparr>, begun_world) \<and>
   fst (udev_watch_begin begun_world disk_alias) = 0 \<and>
   fst (snd (udev_watch_begin begun_world disk_alias)) = disk_alias\<lparr>watch_handle := 1\<rparr> \<and>
   fst (snd (udev_watch_lookup (snd (snd (udev_watch_begin begun_world disk_alias))) 1))
     = Some disk_alias \<and>
   id_filename disk_alias = Some ''+alias:sda'' \<and> id_filename disk_sda = Some ''b8:0'' \<and>
   fst (udev_watch_begin (begun_world\<lparr>faults := [0, 0, 0, 28]\<rparr>)
          (disk_sda\<lparr>watch_handle := 1\<rparr>)) = - 28 \<and>
   fst (snd (udev_watch_begin (begun_world\<lparr>faults := [0, 0, 0, 28]\<rparr>)
          (disk_sda\<lparr>watch_handle := 1\<rparr>))) = disk_sda\<lparr>watch_handle := 1\<rparr> \<and>
   fst (udev_watch_lookup
          (snd (snd (udev_watch_begin (begun_world\<lparr>faults := [0, 0, 0, 28]\<rparr>)
                       (disk_sda\<lparr>watch_handle := 1\<rparr>)))) 1) = 0 \<and>
   fst (snd (udev_watch_lookup
          (snd (snd (udev_watch_begin (begun_world\<lparr>faults := [0, 0, 0, 28]\<rparr>)
                       (disk_sda\<lparr>watch_handle := 1\<rparr>)))) 1)) = None"
  by (simp add: begun_world_def ready_world_def fresh_world_def disk_sda_def disk_alias_def
      example_sysfs_def begin_eval_defs)

end
